theory Spec2Isabelle
  imports Main
begin

section \<open>Text helpers\<close>

text \<open>
  JavaScript strings are modelled as \<open>string\<close>. A value that may be absent
  (\<open>undefined\<close>, \<open>null\<close>, a missing body field or header) is a \<open>string option\<close>;
  \<open>truthy\<close> is the test that \<open>if (x)\<close>, \<open>!x\<close> and \<open>x || d\<close> perform on it: absent and
  empty are both falsy.
\<close>

definition truthy :: "string option \<Rightarrow> bool" where
  "truthy x = (case x of None \<Rightarrow> False | Some v \<Rightarrow> v \<noteq> [])"

definition or_default :: "string option \<Rightarrow> string \<Rightarrow> string" where
  \<comment> \<open>\<open>x || d\<close>\<close>
  "or_default x d = (case x of None \<Rightarrow> d | Some v \<Rightarrow> if v = [] then d else v)"

definition or_null :: "string option \<Rightarrow> string option" where
  \<comment> \<open>\<open>x || null\<close>\<close>
  "or_null x = (if truthy x then x else None)"

definition toLowerCase_char :: "char \<Rightarrow> char" where
  "toLowerCase_char c =
     (let n = (of_char c :: nat) in if 65 \<le> n \<and> n \<le> 90 then char_of (n + 32) else c)"

definition toLowerCase :: "string \<Rightarrow> string" where
  "toLowerCase s = map toLowerCase_char s"

fun str_includes :: "string \<Rightarrow> string \<Rightarrow> bool" where
  \<comment> \<open>\<open>hay.includes(needle)\<close>\<close>
  "str_includes [] needle = (needle = [])"
| "str_includes (c # cs) needle = (take (length needle) (c # cs) = needle \<or> str_includes cs needle)"

definition is_space :: "char \<Rightarrow> bool" where
  "is_space c = (c = CHR '' '' \<or> c = CHR 0x09 \<or> c = CHR 0x0A \<or> c = CHR 0x0D)"

definition trim :: "string \<Rightarrow> string" where
  "trim s = rev (dropWhile is_space (rev (dropWhile is_space s)))"

fun split_comma :: "string \<Rightarrow> string list" where
  \<comment> \<open>\<open>s.split(',')\<close>\<close>
  "split_comma [] = [[]]"
| "split_comma (c # cs) =
     (case split_comma cs of
        [] \<Rightarrow> [[c]]
      | w # ws \<Rightarrow> if c = CHR '','' then [] # w # ws else (c # w) # ws)"

definition digit_of :: "char \<Rightarrow> nat option" where
  "digit_of c =
     (let n = (of_char c :: nat) in if 48 \<le> n \<and> n \<le> 57 then Some (n - 48) else None)"

fun parse_digits :: "nat \<Rightarrow> string \<Rightarrow> nat option" where
  "parse_digits acc [] = Some acc"
| "parse_digits acc (c # cs) =
     (case digit_of c of None \<Rightarrow> None | Some d \<Rightarrow> parse_digits (10 * acc + d) cs)"

definition pg_space :: "char \<Rightarrow> bool" where
  "pg_space c = (c \<in> set [CHR '' '', CHR 0x09, CHR 0x0A, CHR 0x0B, CHR 0x0C, CHR 0x0D])"

definition is_digit :: "char \<Rightarrow> bool" where
  "is_digit c = (digit_of c \<noteq> None)"

definition as_integer :: "string \<Rightarrow> int option" where
  \<comment> \<open>the value of a text parameter that PostgreSQL reads as an \<open>integer\<close>: blanks, an
      optional sign, decimal digits, blanks; \<open>None\<close> when the text is not of that form
      or the number does not fit 32 bits, which makes the statement fail\<close>
  "as_integer s =
     (let t = dropWhile pg_space s;
          negative = (take 1 t = ''-'');
          u = (if take 1 t = ''-'' \<or> take 1 t = ''+'' then drop 1 t else t);
          ds = takeWhile is_digit u;
          rest = dropWhile is_digit u
      in if ds = [] \<or> \<not> list_all pg_space rest then None
         else case parse_digits 0 ds of
           None \<Rightarrow> None
         | Some n \<Rightarrow>
            (let v = (if negative then - int n else int n)
             in if - (2 ^ 31) \<le> v \<and> v < 2 ^ 31 then Some v else None))"

fun like_match :: "string \<Rightarrow> string \<Rightarrow> bool" where
  \<comment> \<open>\<open>text LIKE pattern\<close>: \<open>%\<close> stands for any run of characters, \<open>_\<close> for any one
      character, and a backslash takes the character after it literally\<close>
  "like_match [] s = (s = [])"
| "like_match (p # ps) [] = (p = CHR ''%'' \<and> like_match ps [])"
| "like_match (p # ps) (c # cs) =
     (if p = CHR ''%'' then like_match ps (c # cs) \<or> like_match (p # ps) cs
      else if p = CHR ''_'' then like_match ps cs
      else if p = CHR 0x5C then (case ps of [] \<Rightarrow> False | q # qs \<Rightarrow> c = q \<and> like_match qs cs)
      else c = p \<and> like_match ps cs)"

definition varchar :: "nat \<Rightarrow> string \<Rightarrow> string option" where
  \<comment> \<open>a text stored in a \<open>VARCHAR(n)\<close> column: a longer text is refused, unless what
      exceeds \<open>n\<close> characters is blanks, which are cut off\<close>
  "varchar n s = (if list_all (\<lambda>c. c = CHR '' '') (drop n s) then Some (take n s) else None)"


section \<open>The store\<close>

text \<open>
  The tables of \<open>Database.initializeTables\<close>, each a list of rows in insertion order.
  Timestamps count seconds; \<open>CURRENT_TIMESTAMP\<close>, \<open>NOW()\<close> and \<open>new Date()\<close> read the
  clock value \<open>now\<close> that every operation takes as an argument. A JSON object
  (\<open>metadata\<close>) is an association list from keys to text. Rendered message bodies and
  subjects of notifications are not kept; every other column of the log tables is.
  Of the constraints of the schema the model carries the primary keys' sequences, the
  CHECK constraints on the status columns that receive text from outside, the
  uniqueness of ticket numbers, and the length limits and JSONB type of the columns of
  \<open>status_updates\<close> and \<open>webhook_logs\<close> that receive text from a request. Values have
  the types the source declares for them.
  The events published to the dashboard (\<open>io.emit\<close>) and what is printed to the console
  are not part of the state.
\<close>

type_synonym timestamp = nat
type_synonym json_object = "(string \<times> string) list"

datatype ticket_status = Open | In_progress | Resolved | Closed
datatype ticket_priority = Low | Medium | High | Urgent

fun ticket_status_text :: "ticket_status \<Rightarrow> string" where
  "ticket_status_text Open = ''open''"
| "ticket_status_text In_progress = ''in_progress''"
| "ticket_status_text Resolved = ''resolved''"
| "ticket_status_text Closed = ''closed''"

fun ticket_priority_text :: "ticket_priority \<Rightarrow> string" where
  "ticket_priority_text Low = ''low''"
| "ticket_priority_text Medium = ''medium''"
| "ticket_priority_text High = ''high''"
| "ticket_priority_text Urgent = ''urgent''"

record ticket =
  tk_id :: nat
  tk_ticket_number :: string
  tk_customer_email :: string
  tk_merchant_email :: "string option"
  tk_subject :: string
  tk_description :: "string option"
  tk_status :: ticket_status
  tk_priority :: ticket_priority
  tk_transaction_id :: "string option"
  tk_created_at :: timestamp
  tk_updated_at :: timestamp
  tk_resolved_at :: "timestamp option"
  tk_assigned_to :: "string option"
  tk_tags :: "string list"
  tk_metadata :: json_object

record transaction =
  tx_id :: nat
  tx_transaction_id :: string
  tx_payer_email :: string
  tx_merchant_email :: string
  tx_amount :: int
  tx_currency :: string
  tx_status :: string
  tx_payment_method :: "string option"
  tx_gateway_response :: string
  tx_created_at :: timestamp
  tx_updated_at :: timestamp
  tx_completed_at :: "timestamp option"
  tx_metadata :: json_object

datatype entity_type = Ticket_entity | Transaction_entity

record status_update =
  su_entity_type :: entity_type
  su_entity_id :: nat
  su_old_status :: "string option"
  su_new_status :: string
  su_updated_by :: "string option"
  su_update_reason :: "string option"
  su_created_at :: timestamp

record email_log =
  el_ticket_id :: "nat option"
  el_transaction_id :: "string option"
  el_recipient_email :: string
  el_email_type :: string
  el_status :: string
  el_sent_at :: "timestamp option"
  el_error_message :: "string option"

record whatsapp_log =
  wl_ticket_id :: "nat option"
  wl_transaction_id :: "string option"
  wl_phone_number :: string
  wl_message_type :: string
  wl_status :: string
  wl_whatsapp_message_id :: "string option"
  wl_sent_at :: "timestamp option"
  wl_error_message :: "string option"

record webhook_log =
  wh_source :: string
  wh_event_type :: string
  wh_payload :: string
  wh_status :: string
  wh_processed_at :: "timestamp option"
  wh_error_message :: "string option"
  wh_created_at :: timestamp

record store =
  tickets :: "ticket list"
  tickets_id_seq :: nat
  transactions :: "transaction list"
  transactions_id_seq :: nat
  status_updates :: "status_update list"
  email_logs :: "email_log list"
  whatsapp_logs :: "whatsapp_log list"
  webhook_logs :: "webhook_log list"

datatype db_error =
  Check_violation | Unique_violation | Invalid_integer | Bind_mismatch | Negative_limit
  | Undefined_operator | Inconsistent_parameter_types | Ambiguous_column
  | String_too_long | Out_of_range

text \<open>The CHECK constraints on the status columns.\<close>

definition transaction_statuses :: "string list" where
  "transaction_statuses =
     [''initiated'', ''pending'', ''processing'', ''success'', ''failed'', ''refunded'',
      ''cancelled'']"

definition whatsapp_log_statuses :: "string list" where
  "whatsapp_log_statuses = [''pending'', ''sent'', ''delivered'', ''read'', ''failed'']"

definition webhook_log_statuses :: "string list" where
  "webhook_log_statuses = [''pending'', ''processed'', ''failed'']"

definition varchar_opt :: "nat \<Rightarrow> string option \<Rightarrow> string option option" where
  \<comment> \<open>a nullable \<open>VARCHAR(n)\<close> column\<close>
  "varchar_opt n x = (case x of None \<Rightarrow> Some None | Some v \<Rightarrow> map_option Some (varchar n v))"

definition insert_status_update ::
  "timestamp \<Rightarrow> entity_type \<Rightarrow> nat \<Rightarrow> string option \<Rightarrow> string \<Rightarrow> string option \<Rightarrow>
   string option \<Rightarrow> store \<Rightarrow> db_error + store" where
  \<comment> \<open>\<open>INSERT INTO status_updates (entity_type, entity_id, old_status, new_status,
      update_reason, updated_by)\<close>; \<open>old_status\<close> and \<open>new_status\<close> are \<open>VARCHAR(50)\<close>,
      \<open>updated_by\<close> is \<open>VARCHAR(255)\<close>, \<open>update_reason\<close> is \<open>TEXT\<close>\<close>
  "insert_status_update now et eid old new reason who s =
     (case (varchar_opt 50 old, varchar 50 new, varchar_opt 255 who) of
        (Some old', Some new', Some who') \<Rightarrow>
          Inr (s\<lparr>status_updates := status_updates s @
                 [\<lparr>su_entity_type = et, su_entity_id = eid, su_old_status = old',
                   su_new_status = new', su_updated_by = who', su_update_reason = reason,
                   su_created_at = now\<rparr>]\<rparr>)
      | _ \<Rightarrow> Inl String_too_long)"


subsection \<open>Statements and their parameters\<close>

text \<open>
  The driver sends every statement with its values as untyped parameters, and the store
  deduces the type of each parameter from the places of the statement that use it,
  before it reads any row; a statement whose parameters cannot be typed fails whatever
  the values are. The places are taken in the order in which the store analyses them:
  the WHERE clause, then the expressions of the SET clause from left to right, and last
  the assignment of each SET expression to its column.

  \<^item> A parameter compared with a column takes the type of the comparison operator's
    other side: \<open>integer\<close> for an integer column, \<open>text\<close> for a \<open>VARCHAR\<close> column. If it
    has a type already, the operator must exist for that pair of types; there is none
    for \<open>integer = text\<close>.
  \<^item> A parameter in \<open>$n IN ('a', 'b')\<close> takes the type \<open>text\<close> if it has none.
  \<^item> A parameter that alone is the source of \<open>SET column = $n\<close> is given the column's
    type at the assignment. If it had no type when the SET expression was read and has
    been given a different one since, the types deduced for it are inconsistent. If it
    had a type when the SET expression was read, that value is converted on assignment.

  In \<open>INSERT ... ON CONFLICT ... DO UPDATE SET\<close> a column of the existing row is named
  with the table's name and a column of the proposed row with \<open>EXCLUDED\<close>; a column
  name with neither is ambiguous.
\<close>

datatype sql_type = T_integer | T_varchar | T_text | T_jsonb | T_numeric

datatype param_use =
  Compared_with sql_type | Listed_with_literals | Assigned_to sql_type

datatype column_ref = Of_target string | Of_excluded string | Unqualified string

record statement =
  param_uses :: "(nat \<times> param_use) list"
  conflict_update_refs :: "column_ref list"

fun operand_type :: "sql_type \<Rightarrow> sql_type" where
  "operand_type T_varchar = T_text"
| "operand_type t = t"

type_synonym param_types = "(nat \<times> sql_type) list"

fun deduce ::
  "(nat \<times> param_use) list \<Rightarrow> param_types \<Rightarrow> (nat \<times> sql_type) list \<Rightarrow>
   db_error + (param_types \<times> (nat \<times> sql_type) list)" where
  \<comment> \<open>the types deduced so far, and the assignments still to be made\<close>
  "deduce [] types pending = Inr (types, pending)"
| "deduce ((n, Compared_with c) # uses) types pending =
     (case map_of types n of
        None \<Rightarrow> deduce uses ((n, operand_type c) # types) pending
      | Some t \<Rightarrow> if operand_type c = operand_type t then deduce uses types pending
                  else Inl Undefined_operator)"
| "deduce ((n, Listed_with_literals) # uses) types pending =
     (case map_of types n of
        None \<Rightarrow> deduce uses ((n, T_text) # types) pending
      | Some t \<Rightarrow> deduce uses types pending)"
| "deduce ((n, Assigned_to c) # uses) types pending =
     (case map_of types n of
        None \<Rightarrow> deduce uses types (pending @ [(n, c)])
      | Some t \<Rightarrow> deduce uses types pending)"

fun assign :: "(nat \<times> sql_type) list \<Rightarrow> param_types \<Rightarrow> db_error option" where
  "assign [] types = None"
| "assign ((n, c) # pending) types =
     (case map_of types n of
        None \<Rightarrow> assign pending ((n, c) # types)
      | Some t \<Rightarrow> if t = c then assign pending types else Some Inconsistent_parameter_types)"

fun is_unqualified :: "column_ref \<Rightarrow> bool" where
  "is_unqualified (Unqualified c) = True"
| "is_unqualified r = False"

definition prepare :: "statement \<Rightarrow> db_error option" where
  \<comment> \<open>the error with which the store refuses the statement, if it does\<close>
  "prepare q =
     (if list_ex is_unqualified (conflict_update_refs q) then Some Ambiguous_column
      else case deduce (param_uses q) [] [] of
        Inl err \<Rightarrow> Some err
      | Inr (types, pending) \<Rightarrow> assign pending types)"


section \<open>The environment\<close>

text \<open>
  What the process reads from outside the store: the external status source
  (\<open>TransactionService.fetchTransactionStatus\<close>, the mock included, as a function of
  the transaction id, \<open>None\<close> for a failed request), whether the mail and WhatsApp
  transports are configured and whether they accept a message, the webhook secrets and
  support addresses of \<open>process.env\<close>, Node's
  \<open>crypto.createHmac('sha256', secret).update(payload).digest('hex')\<close> as a function of
  secret and payload, and which texts the store accepts as the value of a JSONB column.
\<close>

record status_response =
  r_transaction_id :: string
  r_status :: string
  r_amount :: int
  r_currency :: string
  r_payment_method :: string
  r_gateway_response :: string
  r_metadata :: "json_object option"

record env =
  fetchTransactionStatus :: "string \<Rightarrow> status_response option"
  email_configured :: bool
  email_accepted :: bool
  whatsapp_configured :: bool
  whatsapp_accepted :: "string option option"
  TRANSACTION_WEBHOOK_SECRET :: "string option"
  CRM_WEBHOOK_SECRET :: "string option"
  SUPPORT_EMAILS :: "string option"
  hmac_sha256_hex :: "string \<Rightarrow> string \<Rightarrow> string"
  jsonb_accepts :: "string \<Rightarrow> bool"


section \<open>Notification senders\<close>

record email_data =
  ed_to :: string
  ed_ticketId :: "nat option"
  ed_transactionId :: "string option"
  ed_type :: string

definition logEmail ::
  "timestamp \<Rightarrow> email_data \<Rightarrow> string \<Rightarrow> string option \<Rightarrow> store \<Rightarrow> store" where
  "logEmail now ed st err s =
     s\<lparr>email_logs := email_logs s @
          [\<lparr>el_ticket_id = (if ed_ticketId ed = Some 0 then None else ed_ticketId ed), el_transaction_id = or_null (ed_transactionId ed),
            el_recipient_email = ed_to ed, el_email_type = ed_type ed, el_status = st,
            el_sent_at = (if st = ''sent'' then Some now else None),
            el_error_message = or_null err\<rparr>]\<rparr>"

definition sendEmail :: "env \<Rightarrow> timestamp \<Rightarrow> email_data \<Rightarrow> store \<Rightarrow> bool \<times> store" where
  "sendEmail e now ed s =
     (if \<not> email_configured e then (True, logEmail now ed ''sent'' None s)
      else if email_accepted e then (True, logEmail now ed ''sent'' None s)
      else (False, logEmail now ed ''failed'' (Some ''send failed'') s))"
  \<comment> \<open>\<open>''send failed''\<close> stands for the message of the transport's error\<close>

record whatsapp_message =
  wm_to :: string
  wm_ticketId :: "nat option"
  wm_transactionId :: "string option"
  wm_messageType :: string

definition logMessage ::
  "timestamp \<Rightarrow> whatsapp_message \<Rightarrow> string \<Rightarrow> string option \<Rightarrow> string option \<Rightarrow> store \<Rightarrow>
   store" where
  "logMessage now m st mid err s =
     s\<lparr>whatsapp_logs := whatsapp_logs s @
          [\<lparr>wl_ticket_id = (if wm_ticketId m = Some 0 then None else wm_ticketId m), wl_transaction_id = or_null (wm_transactionId m),
            wl_phone_number = wm_to m, wl_message_type = wm_messageType m, wl_status = st,
            wl_whatsapp_message_id = or_null mid,
            wl_sent_at = (if st = ''sent'' then Some now else None),
            wl_error_message = or_null err\<rparr>]\<rparr>"

definition sendMessage ::
  "env \<Rightarrow> timestamp \<Rightarrow> whatsapp_message \<Rightarrow> store \<Rightarrow> bool \<times> store" where
  \<comment> \<open>\<open>whatsapp_accepted\<close>: \<open>None\<close> when the request fails, else the message id of the
      response, if it carries one\<close>
  "sendMessage e now m s =
     (if \<not> whatsapp_configured e then (True, logMessage now m ''sent'' None None s)
      else case whatsapp_accepted e of
             Some mid \<Rightarrow> (True, logMessage now m ''sent'' mid None s)
           | None \<Rightarrow> (False, logMessage now m ''failed'' None (Some ''send failed'') s))"

datatype js_error = RangeError | TypeError

datatype js_value = JS_number int | JS_decimal_text int

text \<open>
  The \<open>amount\<close> of a transaction reaches JavaScript either as a number (in the answer
  of the status source) or, read from the store, as the text of the number: the driver
  returns a \<open>DECIMAL\<close> column as a string.
\<close>

definition toFixed :: "js_value \<Rightarrow> js_error + js_value" where
  \<comment> \<open>\<open>amount.toFixed(2)\<close>: a method of numbers; a string has none of that name and
      the call throws\<close>
  "toFixed v =
     (case v of JS_number n \<Rightarrow> Inr (JS_number n) | JS_decimal_text n \<Rightarrow> Inl TypeError)"

definition row_amount :: "transaction \<Rightarrow> js_value" where
  \<comment> \<open>the \<open>amount\<close> of a row as the driver returns it\<close>
  "row_amount t = JS_decimal_text (tx_amount t)"

definition getTransactionStatusUpdateTemplate ::
  "string \<Rightarrow> string \<Rightarrow> js_value \<Rightarrow> string \<Rightarrow> js_error + unit" where
  \<comment> \<open>\<open>EmailService.getTransactionStatusUpdateTemplate\<close>: the rendered template is not
      kept, only whether rendering it throws\<close>
  "getTransactionStatusUpdateTemplate transactionId status amount currency =
     (case toFixed amount of Inl err \<Rightarrow> Inl err | Inr shown \<Rightarrow> Inr ())"

definition sendTransactionNotifications :: "env \<Rightarrow> timestamp \<Rightarrow> transaction \<Rightarrow> store \<Rightarrow> store" where
  \<comment> \<open>the private helper of \<open>TransactionController\<close>; \<open>WebhookController\<close> and
      \<open>CronService\<close> carry the same body. The transaction is a row returned by the
      store. Whatever is thrown inside is caught and printed.\<close>
  "sendTransactionNotifications e now t s =
     (case getTransactionStatusUpdateTemplate (tx_transaction_id t) (tx_status t)
             (row_amount t) (tx_currency t) of
        Inl err \<Rightarrow> s
      | Inr emailTemplate \<Rightarrow>
         (let s1 = snd (sendEmail e now
                     \<lparr>ed_to = tx_payer_email t, ed_ticketId = None,
                      ed_transactionId = Some (tx_transaction_id t),
                      ed_type = ''transaction_status_update''\<rparr> s);
              phoneNumber = map_of (tx_metadata t) ''phone''
          in if truthy phoneNumber
             then snd (sendMessage e now
                     \<lparr>wm_to = the phoneNumber, wm_ticketId = None,
                      wm_transactionId = Some (tx_transaction_id t),
                      wm_messageType = ''transaction_update''\<rparr> s1)
             else s1))"


section \<open>Transaction workflow\<close>

datatype 'a reply = Reply nat "'a option"

fun reply_code :: "'a reply \<Rightarrow> nat" where
  "reply_code (Reply c d) = c"

definition terminal_status :: "string \<Rightarrow> bool" where
  \<comment> \<open>\<open>$1 IN ('success', 'failed', 'refunded', 'cancelled')\<close>\<close>
  "terminal_status st = (st \<in> set [''success'', ''failed'', ''refunded'', ''cancelled''])"

definition manual_update_statement :: statement where
  \<comment> \<open>\<open>UPDATE transactions SET status = $1, updated_at = CURRENT_TIMESTAMP, completed_at =
      CASE WHEN $1 IN ('success', 'failed', 'refunded', 'cancelled') THEN CURRENT_TIMESTAMP
      ELSE completed_at END WHERE id = $2 RETURNING *\<close>\<close>
  "manual_update_statement =
     \<lparr>param_uses = [(2, Compared_with T_integer), (1, Assigned_to T_varchar),
                     (1, Listed_with_literals)],
      conflict_update_refs = []\<rparr>"

definition synced_update_statement :: statement where
  \<comment> \<open>\<open>UPDATE transactions SET status = $1, gateway_response = $2, updated_at =
      CURRENT_TIMESTAMP, completed_at = CASE WHEN $1 IN (...) THEN CURRENT_TIMESTAMP ELSE
      completed_at END WHERE transaction_id = $3 RETURNING *\<close>\<close>
  "synced_update_statement =
     \<lparr>param_uses = [(3, Compared_with T_varchar), (1, Assigned_to T_varchar),
                     (2, Assigned_to T_jsonb), (1, Listed_with_literals)],
      conflict_update_refs = []\<rparr>"

definition upsert_statement :: statement where
  \<comment> \<open>\<open>INSERT INTO transactions (transaction_id, payer_email, merchant_email, amount,
      currency, status, payment_method, gateway_response, metadata) VALUES ($1, ..., $9)
      ON CONFLICT (transaction_id) DO UPDATE SET status = EXCLUDED.status,
      gateway_response = EXCLUDED.gateway_response, updated_at = CURRENT_TIMESTAMP,
      completed_at = CASE WHEN EXCLUDED.status IN (...) THEN CURRENT_TIMESTAMP ELSE
      completed_at END RETURNING *\<close>\<close>
  "upsert_statement =
     \<lparr>param_uses = [(1, Assigned_to T_varchar), (2, Assigned_to T_varchar),
                     (3, Assigned_to T_varchar), (4, Assigned_to T_numeric),
                     (5, Assigned_to T_varchar), (6, Assigned_to T_varchar),
                     (7, Assigned_to T_varchar), (8, Assigned_to T_jsonb),
                     (9, Assigned_to T_jsonb)],
      conflict_update_refs = [Of_excluded ''status'', Of_excluded ''gateway_response'',
                              Of_excluded ''status'', Unqualified ''completed_at'']\<rparr>"

definition key_select_statement :: statement where
  \<comment> \<open>\<open>SELECT * FROM transactions WHERE transaction_id = $1 OR id = $1\<close>\<close>
  "key_select_statement =
     \<lparr>param_uses = [(1, Compared_with T_varchar), (1, Compared_with T_integer)],
      conflict_update_refs = []\<rparr>"

definition id_select_statement :: statement where
  \<comment> \<open>\<open>SELECT * FROM transactions WHERE transaction_id = $1\<close>\<close>
  "id_select_statement =
     \<lparr>param_uses = [(1, Compared_with T_varchar)], conflict_update_refs = []\<rparr>"

definition update_transactions ::
  "statement \<Rightarrow> (transaction \<Rightarrow> bool) \<Rightarrow> string \<Rightarrow> (transaction \<Rightarrow> transaction) \<Rightarrow> store \<Rightarrow>
   db_error + (transaction list \<times> store)" where
  \<comment> \<open>\<open>UPDATE transactions SET status = st, ... WHERE P RETURNING *\<close>: the statement
      fails as a whole, changing nothing, when the store refuses it or when a row it
      writes breaks the CHECK constraint on \<open>status\<close>\<close>
  "update_transactions q P st f s =
     (case prepare q of
        Some err \<Rightarrow> Inl err
      | None \<Rightarrow>
         if filter P (transactions s) \<noteq> [] \<and> st \<notin> set transaction_statuses
         then Inl Check_violation
         else Inr (map f (filter P (transactions s)),
                   s\<lparr>transactions := map (\<lambda>t. if P t then f t else t) (transactions s)\<rparr>))"

definition select_transactions ::
  "statement \<Rightarrow> (transaction \<Rightarrow> bool) \<Rightarrow> store \<Rightarrow> db_error + transaction list" where
  \<comment> \<open>\<open>SELECT * FROM transactions WHERE P\<close>\<close>
  "select_transactions q P s =
     (case prepare q of Some err \<Rightarrow> Inl err | None \<Rightarrow> Inr (filter P (transactions s)))"

definition set_synced_status :: "timestamp \<Rightarrow> string \<Rightarrow> string \<Rightarrow> transaction \<Rightarrow> transaction" where
  \<comment> \<open>the SET clause of \<open>TransactionService.updateTransactionStatus\<close>\<close>
  "set_synced_status now st gw t =
     t\<lparr>tx_status := st, tx_gateway_response := gw, tx_updated_at := now,
       tx_completed_at := (if terminal_status st then Some now else tx_completed_at t)\<rparr>"

definition set_manual_status :: "timestamp \<Rightarrow> string \<Rightarrow> transaction \<Rightarrow> transaction" where
  \<comment> \<open>the SET clause of \<open>TransactionController.updateTransactionStatus\<close>\<close>
  "set_manual_status now st t =
     t\<lparr>tx_status := st, tx_updated_at := now,
       tx_completed_at := (if terminal_status st then Some now else tx_completed_at t)\<rparr>"

definition metadata_field :: "json_object option \<Rightarrow> string \<Rightarrow> string option" where
  \<comment> \<open>\<open>metadata?.key\<close>\<close>
  "metadata_field md k = (case md of None \<Rightarrow> None | Some m \<Rightarrow> map_of m k)"

definition insert_transaction ::
  "timestamp \<Rightarrow> status_response \<Rightarrow> store \<Rightarrow> db_error + (transaction \<times> store)" where
  \<comment> \<open>the upsert of SyncStatus, first row returned. A new row takes the next id of the
      sequence and the column defaults: both timestamps now, \<open>completed_at\<close> NULL.\<close>
  "insert_transaction now r s =
     (case prepare upsert_statement of
        Some err \<Rightarrow> Inl err
      | None \<Rightarrow>
     if r_status r \<notin> set transaction_statuses then Inl Check_violation
      else case filter (\<lambda>t. tx_transaction_id t = r_transaction_id r) (transactions s) of
        [] \<Rightarrow>
          (let row = \<lparr>tx_id = Suc (transactions_id_seq s),
                      tx_transaction_id = r_transaction_id r,
                      tx_payer_email =
                        or_default (metadata_field (r_metadata r) ''payer_email'')
                          ''unknown@example.com'',
                      tx_merchant_email =
                        or_default (metadata_field (r_metadata r) ''merchant_email'')
                          ''merchant@example.com'',
                      tx_amount = r_amount r, tx_currency = r_currency r,
                      tx_status = r_status r,
                      tx_payment_method = Some (r_payment_method r),
                      tx_gateway_response = r_gateway_response r,
                      tx_created_at = now, tx_updated_at = now, tx_completed_at = None,
                      tx_metadata = (case r_metadata r of None \<Rightarrow> [] | Some m \<Rightarrow> m)\<rparr>
           in Inr (row, s\<lparr>transactions := transactions s @ [row],
                          transactions_id_seq := Suc (transactions_id_seq s)\<rparr>))
      | old # _ \<Rightarrow>
          (let f = set_synced_status now (r_status r) (r_gateway_response r)
           in Inr (f old,
                   s\<lparr>transactions :=
                        map (\<lambda>t. if tx_transaction_id t = r_transaction_id r then f t else t)
                          (transactions s)\<rparr>)))"

definition TransactionService_updateTransactionStatus ::
  "env \<Rightarrow> timestamp \<Rightarrow> string \<Rightarrow> store \<Rightarrow> transaction option \<times> store" where
  \<comment> \<open>\<open>TransactionService.updateTransactionStatus\<close> (SyncStatus). Every error thrown
      inside is caught and turned into \<open>null\<close>; what a statement wrote before the error
      stays written.\<close>
  "TransactionService_updateTransactionStatus e now transactionId s =
     (case fetchTransactionStatus e transactionId of
        None \<Rightarrow> (None, s)
      | Some statusResponse \<Rightarrow>
         (case select_transactions id_select_statement
                 (\<lambda>t. tx_transaction_id t = transactionId) s of
            Inl err \<Rightarrow> (None, s)
          | Inr [] \<Rightarrow>
              (case insert_transaction now statusResponse s of
                 Inl err \<Rightarrow> (None, s)
               | Inr (transaction, s1) \<Rightarrow> (Some transaction, s1))
          | Inr (currentTransaction # _) \<Rightarrow>
              if tx_status currentTransaction \<noteq> r_status statusResponse then
                (case update_transactions synced_update_statement
                        (\<lambda>t. tx_transaction_id t = transactionId)
                        (r_status statusResponse)
                        (set_synced_status now (r_status statusResponse)
                           (r_gateway_response statusResponse)) s of
                   Inl err \<Rightarrow> (None, s)
                 | Inr ([], s1) \<Rightarrow> (None, s1)
                 | Inr (transaction # _, s1) \<Rightarrow>
                     (case insert_status_update now Transaction_entity (tx_id transaction)
                             (Some (tx_status currentTransaction)) (r_status statusResponse)
                             (Some ''External API update'') None s1 of
                        Inl err \<Rightarrow> (None, s1)
                      | Inr s2 \<Rightarrow> (Some transaction, s2)))
              else (Some currentTransaction, s)))"

fun batchUpdateTransactions ::
  "env \<Rightarrow> timestamp \<Rightarrow> string list \<Rightarrow> store \<Rightarrow> transaction list \<times> store" where
  \<comment> \<open>\<open>TransactionService.batchUpdateTransactions\<close> (BatchSync): the loop over the ids,
      the results pushed in order\<close>
  "batchUpdateTransactions e now [] s = ([], s)"
| "batchUpdateTransactions e now (transactionId # rest) s =
     (case TransactionService_updateTransactionStatus e now transactionId s of
        (None, s1) \<Rightarrow> batchUpdateTransactions e now rest s1
      | (Some transaction, s1) \<Rightarrow>
          (case batchUpdateTransactions e now rest s1 of
             (updatedTransactions, s2) \<Rightarrow> (transaction # updatedTransactions, s2)))"

record status_request =
  sr_status :: "string option"
  sr_reason :: "string option"
  sr_updated_by :: "string option"

definition find_transaction :: "string \<Rightarrow> store \<Rightarrow> db_error + transaction list" where
  \<comment> \<open>\<open>SELECT * FROM transactions WHERE transaction_id = $1 OR id = $1\<close> with the path
      parameter\<close>
  "find_transaction key s =
     select_transactions key_select_statement
       (\<lambda>t. tx_transaction_id t = key \<or> as_integer key = Some (int (tx_id t))) s"

definition TransactionController_updateTransactionStatus ::
  "env \<Rightarrow> timestamp \<Rightarrow> string \<Rightarrow> status_request \<Rightarrow> store \<Rightarrow> transaction reply \<times> store" where
  \<comment> \<open>\<open>TransactionController.updateTransactionStatus\<close> (ManualStatusUpdate); an error
      thrown by a statement is answered with 500, and what the statements before it
      wrote stays written\<close>
  "TransactionController_updateTransactionStatus e now key body s =
     (case sr_status body of
        None \<Rightarrow> (Reply 400 None, s)
      | Some status \<Rightarrow>
         if status = [] then (Reply 400 None, s)
         else case find_transaction key s of
           Inl err \<Rightarrow> (Reply 500 None, s)
         | Inr [] \<Rightarrow> (Reply 404 None, s)
         | Inr (currentTransaction # _) \<Rightarrow>
            (case update_transactions manual_update_statement
                    (\<lambda>t. tx_id t = tx_id currentTransaction) status
                    (set_manual_status now status) s of
               Inl err \<Rightarrow> (Reply 500 None, s)
             | Inr ([], s1) \<Rightarrow> (Reply 500 None, s1)
             | Inr (updatedTransaction # _, s1) \<Rightarrow>
                 (case insert_status_update now Transaction_entity (tx_id updatedTransaction)
                         (Some (tx_status currentTransaction)) status
                         (Some (or_default (sr_reason body) ''Manual status update''))
                         (Some (or_default (sr_updated_by body) ''admin'')) s1 of
                    Inl err \<Rightarrow> (Reply 500 None, s1)
                  | Inr s2 \<Rightarrow>
                      (Reply 200 (Some updatedTransaction),
                       sendTransactionNotifications e now updatedTransaction s2))))"

definition refreshTransactionStatus ::
  "env \<Rightarrow> timestamp \<Rightarrow> string \<Rightarrow> store \<Rightarrow> transaction reply \<times> store" where
  \<comment> \<open>\<open>TransactionController.refreshTransactionStatus\<close>: notifies only if the status
      changed\<close>
  "refreshTransactionStatus e now key s =
     (case find_transaction key s of
        Inl err \<Rightarrow> (Reply 500 None, s)
      | Inr [] \<Rightarrow> (Reply 404 None, s)
      | Inr (currentTransaction # _) \<Rightarrow>
         (case TransactionService_updateTransactionStatus e now
                 (tx_transaction_id currentTransaction) s of
            (None, s1) \<Rightarrow> (Reply 500 None, s1)
          | (Some updatedTransaction, s1) \<Rightarrow>
              (Reply 200 (Some updatedTransaction),
               if tx_status updatedTransaction \<noteq> tx_status currentTransaction
               then sendTransactionNotifications e now updatedTransaction s1 else s1)))"

definition TransactionController_batchUpdateTransactions ::
  "env \<Rightarrow> timestamp \<Rightarrow> string list option \<Rightarrow> store \<Rightarrow> transaction list reply \<times> store" where
  \<comment> \<open>\<open>TransactionController.batchUpdateTransactions\<close>; \<open>None\<close> is a body whose
      \<open>transaction_ids\<close> is not an array\<close>
  "TransactionController_batchUpdateTransactions e now transaction_ids s =
     (case transaction_ids of
        None \<Rightarrow> (Reply 400 None, s)
      | Some ids \<Rightarrow>
         if ids = [] then (Reply 400 None, s)
         else case batchUpdateTransactions e now ids s of
           (updatedTransactions, s1) \<Rightarrow>
             (Reply 200 (Some updatedTransactions),
              fold (sendTransactionNotifications e now) updatedTransactions s1))"


section \<open>Ticket workflow\<close>

record ticket_update =
  u_status :: "ticket_status option"
  u_priority :: "ticket_priority option"
  u_assigned_to :: "string option"
  u_tags :: "string list option"
  u_metadata :: "json_object option"
  u_resolution :: "string option"
  u_updated_by :: "string option"

definition select_ticket :: "string \<Rightarrow> store \<Rightarrow> db_error + ticket list" where
  \<comment> \<open>\<open>SELECT * FROM tickets WHERE id = $1\<close> with the path parameter: a text that is
      not an integer makes the statement fail\<close>
  "select_ticket key s =
     (case as_integer key of
        None \<Rightarrow> Inl Invalid_integer
      | Some n \<Rightarrow> Inr (filter (\<lambda>t. int (tk_id t) = n) (tickets s)))"

definition set_ticket_fields :: "timestamp \<Rightarrow> ticket_update \<Rightarrow> ticket \<Rightarrow> ticket \<Rightarrow> ticket" where
  \<comment> \<open>the \<open>updateFields\<close> that \<open>updateTicket\<close> collects, applied to a row\<close>
  "set_ticket_fields now u currentTicket t =
     t\<lparr>tk_status := (case u_status u of None \<Rightarrow> tk_status t | Some st \<Rightarrow> st),
       tk_priority := (case u_priority u of None \<Rightarrow> tk_priority t | Some p \<Rightarrow> p),
       tk_assigned_to := (case u_assigned_to u of None \<Rightarrow> tk_assigned_to t | Some a \<Rightarrow> Some a),
       tk_tags := (case u_tags u of None \<Rightarrow> tk_tags t | Some ts \<Rightarrow> ts),
       tk_metadata := (case u_metadata u of None \<Rightarrow> tk_metadata t | Some m \<Rightarrow> m),
       tk_updated_at := now,
       tk_resolved_at :=
         (if u_status u = Some Resolved \<and> tk_status currentTicket \<noteq> Resolved then Some now
          else tk_resolved_at t)\<rparr>"

definition sendStatusNotifications ::
  "env \<Rightarrow> timestamp \<Rightarrow> ticket \<Rightarrow> ticket_status \<Rightarrow> string option \<Rightarrow> store \<Rightarrow> store" where
  "sendStatusNotifications e now t newStatus resolution s =
     (let s1 = (if newStatus = Resolved \<and> truthy resolution
                then snd (sendEmail e now
                       \<lparr>ed_to = tk_customer_email t, ed_ticketId = Some (tk_id t),
                        ed_transactionId = None, ed_type = ''closure''\<rparr> s)
                else s);
          phoneNumber = map_of (tk_metadata t) ''phone''
      in if truthy phoneNumber
         then snd (sendMessage e now
                 \<lparr>wm_to = the phoneNumber, wm_ticketId = Some (tk_id t),
                  wm_transactionId = None, wm_messageType = ''status_update''\<rparr> s1)
         else s1)"

definition updateTicket ::
  "env \<Rightarrow> timestamp \<Rightarrow> string \<Rightarrow> ticket_update \<Rightarrow> store \<Rightarrow> ticket reply \<times> store" where
  \<comment> \<open>\<open>TicketController.updateTicket\<close> (Update). Each statement is committed on its
      own: when the INSERT of the audit row throws, the handler answers 500 and the
      UPDATE before it stays written.\<close>
  "updateTicket e now key u s =
     (case select_ticket key s of
        Inl err \<Rightarrow> (Reply 500 None, s)
      | Inr [] \<Rightarrow> (Reply 404 None, s)
      | Inr (currentTicket # _) \<Rightarrow>
         (let updatedTicket = set_ticket_fields now u currentTicket currentTicket;
              s1 = s\<lparr>tickets :=
                       map (\<lambda>t. if tk_id t = tk_id currentTicket
                                then set_ticket_fields now u currentTicket t else t)
                         (tickets s)\<rparr>
          in case u_status u of
               None \<Rightarrow> (Reply 200 (Some updatedTicket), s1)
             | Some st \<Rightarrow>
                 if st \<noteq> tk_status currentTicket
                 then (case insert_status_update now Ticket_entity (tk_id updatedTicket)
                               (Some (ticket_status_text (tk_status currentTicket)))
                               (ticket_status_text st)
                               (Some (or_default (u_resolution u) ''Status updated''))
                               (Some (or_default (u_updated_by u) ''system'')) s1 of
                         Inl err \<Rightarrow> (Reply 500 None, s1)
                       | Inr s2 \<Rightarrow>
                           (Reply 200 (Some updatedTicket),
                            sendStatusNotifications e now updatedTicket st (u_resolution u)
                              s2))
                 else (Reply 200 (Some updatedTicket), s1)))"

definition deleteTicket :: "timestamp \<Rightarrow> string \<Rightarrow> store \<Rightarrow> unit reply \<times> store" where
  \<comment> \<open>\<open>TicketController.deleteTicket\<close> (Close):
      \<open>UPDATE tickets SET status = 'closed', updated_at = CURRENT_TIMESTAMP WHERE id = $1
      RETURNING *\<close> and nothing else\<close>
  "deleteTicket now key s =
     (case as_integer key of
        None \<Rightarrow> (Reply 500 None, s)
      | Some n \<Rightarrow>
         if filter (\<lambda>t. int (tk_id t) = n) (tickets s) = [] then (Reply 404 None, s)
         else (Reply 200 None,
               s\<lparr>tickets :=
                    map (\<lambda>t. if int (tk_id t) = n
                             then t\<lparr>tk_status := Closed, tk_updated_at := now\<rparr>
                             else t) (tickets s)\<rparr>))"

record email_event =
  em_from :: "string option"
  em_subject :: "string option"
  em_to :: "string option"
  em_body :: "string option"
  em_id :: "string option"
  em_threadId :: "string option"
  em_receivedAt :: "string option"

definition processIncomingEmail ::
  "env \<Rightarrow> timestamp \<Rightarrow> string \<Rightarrow> email_event \<Rightarrow> store \<Rightarrow> db_error + (ticket \<times> store)" where
  \<comment> \<open>\<open>TicketController.processIncomingEmail\<close>; \<open>ticketNumber\<close> is the generated
      \<open>TK${Date.now()}${Math.floor(Math.random() * 1000)}\<close>, which the UNIQUE constraint
      on \<open>ticket_number\<close> may reject. The caller has checked that \<open>from\<close> and
      \<open>subject\<close> are present.\<close>
  "processIncomingEmail e now ticketNumber emailData s =
     (if ticketNumber \<in> set (map tk_ticket_number (tickets s)) then Inl Unique_violation
      else
        let row = \<lparr>tk_id = Suc (tickets_id_seq s), tk_ticket_number = ticketNumber,
                   tk_customer_email = or_default (em_from emailData) [],
                   tk_merchant_email = None,
                   tk_subject = or_default (em_subject emailData) [],
                   tk_description = em_body emailData,
                   tk_status = Open, tk_priority = Medium, tk_transaction_id = None,
                   tk_created_at = now, tk_updated_at = now, tk_resolved_at = None,
                   tk_assigned_to = None, tk_tags = [],
                   tk_metadata =
                     concat
                       [case em_id emailData of None \<Rightarrow> [] | Some v \<Rightarrow> [(''original_email_id'', v)],
                        case em_threadId emailData of None \<Rightarrow> [] | Some v \<Rightarrow> [(''email_thread_id'', v)],
                        case em_receivedAt emailData of None \<Rightarrow> [] | Some v \<Rightarrow> [(''received_at'', v)]]\<rparr>;
            s1 = s\<lparr>tickets := tickets s @ [row], tickets_id_seq := Suc (tickets_id_seq s)\<rparr>;
            s2 = snd (sendEmail e now
                   \<lparr>ed_to = tk_customer_email row, ed_ticketId = Some (tk_id row),
                    ed_transactionId = None, ed_type = ''acknowledgment''\<rparr> s1)
        in Inr (row, s2))"


subsection \<open>List\<close>

text \<open>
  \<open>TicketController.getTickets\<close> assembles a parameterised statement: conditions that
  name their values by placeholder number, and the list of values. The store runs a
  statement only if it mentions every placeholder from \<open>$1\<close> up to its highest and is
  given exactly that many values; otherwise the statement fails. \<open>ILIKE\<close> is \<open>LIKE\<close>
  without regard to case, and the pattern is the filter text between two \<open>%\<close>, so
  wildcards inside the filter text act as wildcards; a date filter is the instant its
  text denotes. LIMIT and OFFSET are 64-bit integers.
\<close>

datatype ticket_column =
  C_status | C_priority | C_customer_email | C_merchant_email | C_assigned_to
  | C_transaction_id | C_created_at | C_subject | C_description | C_ticket_number

datatype sql_param = P_text string | P_time timestamp | P_int int

datatype sql_cond =
  Eq ticket_column nat | ILike ticket_column nat | Ge ticket_column nat
  | Le ticket_column nat | Or3 sql_cond sql_cond sql_cond

fun placeholders :: "sql_cond \<Rightarrow> nat list" where
  "placeholders (Eq c i) = [i]"
| "placeholders (ILike c i) = [i]"
| "placeholders (Ge c i) = [i]"
| "placeholders (Le c i) = [i]"
| "placeholders (Or3 a b c) = placeholders a @ placeholders b @ placeholders c"

fun column_text :: "ticket_column \<Rightarrow> ticket \<Rightarrow> string option" where
  "column_text C_status t = Some (ticket_status_text (tk_status t))"
| "column_text C_priority t = Some (ticket_priority_text (tk_priority t))"
| "column_text C_customer_email t = Some (tk_customer_email t)"
| "column_text C_merchant_email t = tk_merchant_email t"
| "column_text C_assigned_to t = tk_assigned_to t"
| "column_text C_transaction_id t = tk_transaction_id t"
| "column_text C_created_at t = None"
| "column_text C_subject t = Some (tk_subject t)"
| "column_text C_description t = tk_description t"
| "column_text C_ticket_number t = Some (tk_ticket_number t)"

definition param_at :: "sql_param list \<Rightarrow> nat \<Rightarrow> sql_param option" where
  "param_at ps i = (if 1 \<le> i \<and> i \<le> length ps then Some (ps ! (i - 1)) else None)"

fun eval_cond :: "sql_param list \<Rightarrow> ticket \<Rightarrow> sql_cond \<Rightarrow> bool" where
  "eval_cond ps t (Eq c i) =
     (case (column_text c t, param_at ps i) of
        (Some v, Some (P_text x)) \<Rightarrow> v = x | _ \<Rightarrow> False)"
| "eval_cond ps t (ILike c i) =
     (case (column_text c t, param_at ps i) of
        (Some v, Some (P_text x)) \<Rightarrow> like_match (toLowerCase x) (toLowerCase v)
      | _ \<Rightarrow> False)"
| "eval_cond ps t (Ge c i) =
     (case param_at ps i of Some (P_time d) \<Rightarrow> c = C_created_at \<and> d \<le> tk_created_at t
      | _ \<Rightarrow> False)"
| "eval_cond ps t (Le c i) =
     (case param_at ps i of Some (P_time d) \<Rightarrow> c = C_created_at \<and> tk_created_at t \<le> d
      | _ \<Rightarrow> False)"
| "eval_cond ps t (Or3 a b c) = (eval_cond ps t a \<or> eval_cond ps t b \<or> eval_cond ps t c)"

definition bind_ok :: "nat list \<Rightarrow> sql_param list \<Rightarrow> bool" where
  "bind_ok mentioned ps = (set mentioned = {1 ..< Suc (length ps)})"

definition select_tickets_page ::
  "sql_cond list \<Rightarrow> nat \<Rightarrow> nat \<Rightarrow> sql_param list \<Rightarrow> store \<Rightarrow> db_error + ticket list" where
  \<comment> \<open>\<open>SELECT * FROM tickets WHERE ... ORDER BY created_at DESC LIMIT $i OFFSET $j\<close>\<close>
  "select_tickets_page conds lim_ix off_ix ps s =
     (if \<not> bind_ok (concat (map placeholders conds) @ [lim_ix, off_ix]) ps
      then Inl Bind_mismatch
      else case (param_at ps lim_ix, param_at ps off_ix) of
        (Some (P_int lim), Some (P_int off)) \<Rightarrow>
          if \<not> (- (2 ^ 63) \<le> lim \<and> lim < 2 ^ 63 \<and> - (2 ^ 63) \<le> off \<and> off < 2 ^ 63)
          then Inl Out_of_range
          else if lim < 0 \<or> off < 0 then Inl Negative_limit
          else Inr (take (nat lim) (drop (nat off)
                 (sort_key (\<lambda>t. - int (tk_created_at t))
                    (filter (\<lambda>t. list_all (eval_cond ps t) conds) (tickets s)))))
      | _ \<Rightarrow> Inl Invalid_integer)"

definition count_tickets :: "sql_cond list \<Rightarrow> sql_param list \<Rightarrow> store \<Rightarrow> db_error + int" where
  \<comment> \<open>\<open>SELECT COUNT(*) FROM tickets WHERE ...\<close>\<close>
  "count_tickets conds ps s =
     (if \<not> bind_ok (concat (map placeholders conds)) ps then Inl Bind_mismatch
      else Inr (int (length (filter (\<lambda>t. list_all (eval_cond ps t) conds) (tickets s)))))"

record ticket_filter =
  f_page :: "int option"
  f_limit :: "int option"
  f_status :: "string option"
  f_priority :: "string option"
  f_customer_email :: "string option"
  f_merchant_email :: "string option"
  f_assigned_to :: "string option"
  f_transaction_id :: "string option"
  f_date_from :: "timestamp option"
  f_date_to :: "timestamp option"
  f_search :: "string option"

record query_builder =
  whereConditions :: "sql_cond list"
  queryParams :: "sql_param list"
  paramIndex :: nat

definition push_filter ::
  "(nat \<Rightarrow> sql_cond) \<Rightarrow> sql_param \<Rightarrow> query_builder \<Rightarrow> query_builder" where
  \<comment> \<open>\<open>whereConditions.push(`... $${paramIndex++}`); queryParams.push(v)\<close>\<close>
  "push_filter mk v b =
     \<lparr>whereConditions = whereConditions b @ [mk (paramIndex b)],
      queryParams = queryParams b @ [v], paramIndex = Suc (paramIndex b)\<rparr>"

definition push_text ::
  "string option \<Rightarrow> (nat \<Rightarrow> sql_cond) \<Rightarrow> (string \<Rightarrow> sql_param) \<Rightarrow> query_builder \<Rightarrow>
   query_builder" where
  \<comment> \<open>\<open>if (filters.x) { ... }\<close>\<close>
  "push_text x mk wrap b = (if truthy x then push_filter mk (wrap (the x)) b else b)"

definition pattern :: "string \<Rightarrow> sql_param" where
  \<comment> \<open>\<open>`%${x}%`\<close>\<close>
  "pattern x = P_text (''%'' @ x @ ''%'')"

definition push_search :: "string option \<Rightarrow> query_builder \<Rightarrow> query_builder" where
  \<comment> \<open>the \<open>filters.search\<close> block: three \<open>paramIndex++\<close> inside the template, then
      \<open>paramIndex += 2\<close>\<close>
  "push_search x b =
     (if truthy x then
        \<lparr>whereConditions = whereConditions b @
           [Or3 (ILike C_subject (paramIndex b)) (ILike C_description (paramIndex b + 1))
              (ILike C_ticket_number (paramIndex b + 2))],
         queryParams = queryParams b @ [pattern (the x), pattern (the x), pattern (the x)],
         paramIndex = paramIndex b + 3 + 2\<rparr>
      else b)"

definition push_time ::
  "timestamp option \<Rightarrow> (nat \<Rightarrow> sql_cond) \<Rightarrow> query_builder \<Rightarrow> query_builder" where
  "push_time x mk b = (case x of None \<Rightarrow> b | Some d \<Rightarrow> push_filter mk (P_time d) b)"

definition build_ticket_filters :: "ticket_filter \<Rightarrow> query_builder" where
  \<comment> \<open>the filter blocks of \<open>getTickets\<close>, in the order of the source\<close>
  "build_ticket_filters f =
     (let b0 = \<lparr>whereConditions = [], queryParams = [], paramIndex = 1\<rparr>;
          b1 = push_text (f_status f) (Eq C_status) P_text b0;
          b2 = push_text (f_priority f) (Eq C_priority) P_text b1;
          b3 = push_text (f_customer_email f) (ILike C_customer_email) pattern b2;
          b4 = push_text (f_merchant_email f) (ILike C_merchant_email) pattern b3;
          b5 = push_text (f_assigned_to f) (ILike C_assigned_to) pattern b4;
          b6 = push_text (f_transaction_id f) (Eq C_transaction_id) P_text b5;
          b7 = push_time (f_date_from f) (Ge C_created_at) b6;
          b8 = push_time (f_date_to f) (Le C_created_at) b7
      in push_search (f_search f) b8)"

record ticket_page =
  pg_tickets :: "ticket list"
  pg_page :: int
  pg_limit :: int
  pg_total :: int
  pg_totalPages :: int
  pg_hasNext :: bool
  pg_hasPrev :: bool

definition parseInt_or :: "int option \<Rightarrow> int \<Rightarrow> int" where
  \<comment> \<open>\<open>parseInt(x) || d\<close>: \<open>None\<close> is \<open>NaN\<close>\<close>
  "parseInt_or x d = (case x of None \<Rightarrow> d | Some n \<Rightarrow> if n = 0 then d else n)"

definition getTickets :: "ticket_filter \<Rightarrow> store \<Rightarrow> ticket_page reply" where
  \<comment> \<open>\<open>TicketController.getTickets\<close> (List); an error thrown by either statement is
      answered with 500\<close>
  "getTickets f s =
     (let page = parseInt_or (f_page f) 1;
          limit = parseInt_or (f_limit f) 10;
          offset = (page - 1) * limit;
          b = build_ticket_filters f;
          queryParams' = queryParams b @ [P_int limit, P_int offset]
      in case select_tickets_page (whereConditions b) (paramIndex b) (Suc (paramIndex b))
                queryParams' s of
           Inl err \<Rightarrow> Reply 500 None
         | Inr rows \<Rightarrow>
            (case count_tickets (whereConditions b) (butlast (butlast queryParams')) s of
               Inl err \<Rightarrow> Reply 500 None
             | Inr total' \<Rightarrow>
                 (let totalPages = - ((- total') div limit)
                  in Reply 200 (Some
                       \<lparr>pg_tickets = rows, pg_page = page, pg_limit = limit, pg_total = total',
                        pg_totalPages = totalPages, pg_hasNext = (page < totalPages),
                        pg_hasPrev = (page > 1)\<rparr>))))"


section \<open>Scheduler\<close>

definition close_ticket_row :: "timestamp \<Rightarrow> ticket \<Rightarrow> store \<Rightarrow> store" where
  \<comment> \<open>\<open>UPDATE tickets SET status = 'closed', updated_at = CURRENT_TIMESTAMP WHERE id = $1\<close>\<close>
  "close_ticket_row now ticket s =
     s\<lparr>tickets :=
         map (\<lambda>t. if tk_id t = tk_id ticket
                  then t\<lparr>tk_status := Closed, tk_updated_at := now\<rparr> else t) (tickets s)\<rparr>"

definition close_resolved_ticket :: "timestamp \<Rightarrow> ticket \<Rightarrow> store \<Rightarrow> db_error + store" where
  \<comment> \<open>the loop body of \<open>autoCloseResolvedTickets\<close>: the UPDATE, then the audit row\<close>
  "close_resolved_ticket now ticket s =
     insert_status_update now Ticket_entity (tk_id ticket) (Some ''resolved'') ''closed''
       (Some ''Auto-closed after 24 hours'') (Some ''system'') (close_ticket_row now ticket s)"

fun close_resolved_tickets :: "timestamp \<Rightarrow> ticket list \<Rightarrow> store \<Rightarrow> store" where
  \<comment> \<open>the loop; an error leaves it, and what was written stays\<close>
  "close_resolved_tickets now [] s = s"
| "close_resolved_tickets now (ticket # rest) s =
     (case close_resolved_ticket now ticket s of
        Inl err \<Rightarrow> close_ticket_row now ticket s
      | Inr s1 \<Rightarrow> close_resolved_tickets now rest s1)"

definition autoCloseResolvedTickets :: "timestamp \<Rightarrow> store \<Rightarrow> store" where
  \<comment> \<open>\<open>CronService.autoCloseResolvedTickets\<close>; \<open>resolved_at < NOW() - INTERVAL '24 hours'\<close>
      is written without subtraction, a NULL \<open>resolved_at\<close> never qualifies\<close>
  "autoCloseResolvedTickets now s =
     close_resolved_tickets now
       (filter (\<lambda>t. tk_status t = Resolved \<and>
                  (case tk_resolved_at t of None \<Rightarrow> False | Some r \<Rightarrow> r + 86400 < now))
          (tickets s)) s"


section \<open>Webhook ingestion\<close>

text \<open>
  The body of a request reaches a handler parsed (\<open>express.json()\<close> is installed in
  front of every route; the text received is not kept). Each handler takes the parsed
  body and \<open>stringify\<close>, the text that \<open>JSON.stringify\<close> renders for it: that text is
  what the handler logs and what it computes the signature over.
\<close>

definition webhook_log_row ::
  "env \<Rightarrow> timestamp \<Rightarrow> string \<Rightarrow> string \<Rightarrow> string \<Rightarrow> string \<Rightarrow> string option \<Rightarrow>
   webhook_log option" where
  \<comment> \<open>the row that \<open>INSERT INTO webhook_logs (source, event_type, payload, status,
      processed_at, error_message)\<close> writes, \<open>None\<close> when the store refuses it:
      \<open>source\<close> and \<open>event_type\<close> are \<open>VARCHAR(100)\<close>, \<open>payload\<close> is JSONB, \<open>status\<close>
      has a CHECK constraint\<close>
  "webhook_log_row e now source eventType payload status errorMessage =
     (case (varchar 100 source, varchar 100 eventType) of
        (Some source', Some eventType') \<Rightarrow>
          if jsonb_accepts e payload \<and> status \<in> set webhook_log_statuses
          then Some \<lparr>wh_source = source', wh_event_type = eventType', wh_payload = payload,
                      wh_status = status,
                      wh_processed_at = (if status = ''processed'' then Some now else None),
                      wh_error_message = or_null errorMessage, wh_created_at = now\<rparr>
          else None
      | _ \<Rightarrow> None)"

definition logWebhook ::
  "env \<Rightarrow> timestamp \<Rightarrow> string \<Rightarrow> string \<Rightarrow> string \<Rightarrow> string \<Rightarrow> string option \<Rightarrow> store \<Rightarrow>
   store" where
  \<comment> \<open>\<open>WebhookController.logWebhook\<close>: one INSERT into \<open>webhook_logs\<close>; when the
      store refuses the row the error is caught and only printed\<close>
  "logWebhook e now source eventType payload status errorMessage s =
     (case webhook_log_row e now source eventType payload status errorMessage of
        None \<Rightarrow> s
      | Some row \<Rightarrow> s\<lparr>webhook_logs := webhook_logs s @ [row]\<rparr>)"

definition timingSafeEqual :: "string \<Rightarrow> string \<Rightarrow> js_error + bool" where
  \<comment> \<open>\<open>crypto.timingSafeEqual\<close> on the two buffers: inputs of different byte length
      throw\<close>
  "timingSafeEqual a b = (if length a \<noteq> length b then Inl RangeError else Inr (a = b))"

definition verifySignature ::
  "(string \<Rightarrow> string \<Rightarrow> string) \<Rightarrow> string \<Rightarrow> string option \<Rightarrow> string \<Rightarrow> bool" where
  \<comment> \<open>\<open>WebhookController.verifySignature\<close>; \<open>Buffer.from\<close> of a missing header throws,
      and every throw is caught and answered \<open>false\<close>\<close>
  "verifySignature hmac payload signature secret =
     (let expectedSignature = hmac secret payload
      in case signature of
           None \<Rightarrow> False
         | Some sg \<Rightarrow>
            (case timingSafeEqual sg (''sha256='' @ expectedSignature) of
               Inl err \<Rightarrow> False
             | Inr eq \<Rightarrow> eq))"

record transaction_event =
  te_transaction_id :: "string option"
  te_status :: "string option"

definition handleTransactionWebhook ::
  "env \<Rightarrow> timestamp \<Rightarrow> (transaction_event \<Rightarrow> string) \<Rightarrow> string option \<Rightarrow> transaction_event \<Rightarrow>
   store \<Rightarrow> transaction reply \<times> store" where
  \<comment> \<open>\<open>WebhookController.handleTransactionWebhook\<close>; \<open>signature\<close> is the
      \<open>x-signature\<close> header\<close>
  "handleTransactionWebhook e now stringify signature body s =
     (let s1 = logWebhook e now ''transaction'' ''status_update'' (stringify body) ''pending''
                 None s
      in if truthy (TRANSACTION_WEBHOOK_SECRET e) \<and>
            \<not> verifySignature (hmac_sha256_hex e) (stringify body) signature
                (the (TRANSACTION_WEBHOOK_SECRET e))
         then (Reply 401 None, s1)
         else if \<not> truthy (te_transaction_id body) \<or> \<not> truthy (te_status body)
         then (Reply 400 None, s1)
         else
           (case TransactionService_updateTransactionStatus e now
                   (the (te_transaction_id body)) s1 of
              (Some updatedTransaction, s2) \<Rightarrow>
                (Reply 200 (Some updatedTransaction),
                 logWebhook e now ''transaction'' ''status_update'' (stringify body)
                   ''processed'' None
                   (sendTransactionNotifications e now updatedTransaction s2))
            | (None, s2) \<Rightarrow>
                (Reply 500 None,
                 logWebhook e now ''transaction'' ''status_update'' (stringify body) ''failed''
                   (Some ''Failed to update transaction'') s2)))"

definition transaction_webhook_request ::
  "env \<Rightarrow> timestamp \<Rightarrow> (string \<Rightarrow> transaction_event option) \<Rightarrow> (transaction_event \<Rightarrow> string) \<Rightarrow>
   string option \<Rightarrow> string \<Rightarrow> store \<Rightarrow> transaction reply \<times> store" where
  \<comment> \<open>a POST to the transaction webhook as the application receives it: \<open>raw\<close> is the
      text of the body, \<open>parse\<close> is \<open>express.json()\<close>, which hands the parsed body to the
      handler and answers 400 itself, through the global error handler, for a text
      that is not JSON\<close>
  "transaction_webhook_request e now parse stringify signature raw s =
     (case parse raw of
        None \<Rightarrow> (Reply 400 None, s)
      | Some body \<Rightarrow> handleTransactionWebhook e now stringify signature body s)"

record crm_event =
  ce_event_type :: "string option"
  ce_ticket_id :: "string option"
  ce_customer_id :: "string option"

definition handleCRMWebhook ::
  "env \<Rightarrow> timestamp \<Rightarrow> (crm_event \<Rightarrow> string) \<Rightarrow> string option \<Rightarrow> crm_event \<Rightarrow> store \<Rightarrow>
   unit reply \<times> store" where
  \<comment> \<open>\<open>WebhookController.handleCRMWebhook\<close>; the three event handlers only print\<close>
  "handleCRMWebhook e now stringify signature body s =
     (let s1 = logWebhook e now ''crm'' (or_default (ce_event_type body) ''unknown'')
                 (stringify body) ''pending'' None s
      in if truthy (CRM_WEBHOOK_SECRET e) \<and>
            \<not> verifySignature (hmac_sha256_hex e) (stringify body) signature
                (the (CRM_WEBHOOK_SECRET e))
         then (Reply 401 None, s1)
         else (Reply 200 None,
               logWebhook e now ''crm'' (or_default (ce_event_type body) ''unknown'')
                 (stringify body) ''processed'' None s1))"

definition handleEmailWebhook ::
  "env \<Rightarrow> timestamp \<Rightarrow> (email_event \<Rightarrow> string) \<Rightarrow> string \<Rightarrow> email_event \<Rightarrow> store \<Rightarrow>
   ticket reply \<times> store" where
  \<comment> \<open>\<open>WebhookController.handleEmailWebhook\<close>; \<open>ticketNumber\<close> is the number that
      \<open>processIncomingEmail\<close> would generate\<close>
  "handleEmailWebhook e now stringify ticketNumber emailData s =
     (let s1 = logWebhook e now ''email'' ''email_received'' (stringify emailData) ''pending''
                 None s
      in if \<not> truthy (em_from emailData) \<or> \<not> truthy (em_subject emailData)
         then (Reply 400 None, s1)
         else
           let supportEmails = split_comma (or_default (SUPPORT_EMAILS e) ''support@company.com'');
               isToSupport =
                 (truthy (em_to emailData) \<and>
                  list_ex (\<lambda>email. str_includes (toLowerCase (the (em_to emailData)))
                                     (trim (toLowerCase email))) supportEmails)
           in if isToSupport then
                (case processIncomingEmail e now ticketNumber emailData s1 of
                   Inr (ticket, s2) \<Rightarrow>
                     (Reply 200 (Some ticket),
                      logWebhook e now ''email'' ''email_received'' (stringify emailData)
                        ''processed'' None s2)
                 | Inl err \<Rightarrow>
                     (Reply 500 None,
                      logWebhook e now ''email'' ''email_received'' (stringify emailData)
                        ''failed'' (Some ''insert failed'') s1))
                  \<comment> \<open>\<open>''insert failed''\<close> stands for the message of the error\<close>
              else
                (Reply 200 None,
                 logWebhook e now ''email'' ''email_received'' (stringify emailData) ''ignored''
                   (Some ''Not a support email'') s1))"

record wa_incoming =
  wi_from :: string
  wi_text :: "string option"
  wi_id :: "string option"

record wa_status =
  ws_id :: "string option"
  ws_status :: string

record wa_change =
  wc_field :: string
  wc_messages :: "wa_incoming list option"
  wc_statuses :: "wa_status list option"

definition processIncomingMessage :: "env \<Rightarrow> timestamp \<Rightarrow> wa_incoming \<Rightarrow> store \<Rightarrow> store" where
  \<comment> \<open>\<open>WhatsAppService.processIncomingMessage\<close>: the help reply, then an INSERT into
      \<open>whatsapp_logs\<close> with status \<open>received\<close>, which the CHECK constraint of that
      table decides; its failure is caught\<close>
  "processIncomingMessage e now message s =
     (let messageText = or_default (wi_text message) [];
          s1 = (if str_includes (toLowerCase messageText) ''track'' \<or>
                   str_includes (toLowerCase messageText) ''status''
                then snd (sendMessage e now
                       \<lparr>wm_to = wi_from message, wm_ticketId = None, wm_transactionId = None,
                        wm_messageType = ''help''\<rparr> s)
                else s)
      in if ''received'' \<notin> set whatsapp_log_statuses then s1
         else s1\<lparr>whatsapp_logs := whatsapp_logs s1 @
                  [\<lparr>wl_ticket_id = None, wl_transaction_id = None,
                    wl_phone_number = wi_from message, wl_message_type = ''incoming'',
                    wl_status = ''received'', wl_whatsapp_message_id = wi_id message,
                    wl_sent_at = None, wl_error_message = None\<rparr>]\<rparr>)"

definition processMessageStatus :: "timestamp \<Rightarrow> wa_status \<Rightarrow> store \<Rightarrow> store" where
  \<comment> \<open>\<open>UPDATE whatsapp_logs SET status = $1, sent_at = $2 WHERE whatsapp_message_id = $3\<close>\<close>
  "processMessageStatus now st s =
     (let hit = (\<lambda>l. ws_id st \<noteq> None \<and> wl_whatsapp_message_id l = ws_id st)
      in if filter hit (whatsapp_logs s) \<noteq> [] \<and> ws_status st \<notin> set whatsapp_log_statuses
         then s
         else s\<lparr>whatsapp_logs :=
                  map (\<lambda>l. if hit l then l\<lparr>wl_status := ws_status st, wl_sent_at := Some now\<rparr>
                           else l) (whatsapp_logs s)\<rparr>)"

definition WhatsAppService_handleWebhook ::
  "env \<Rightarrow> timestamp \<Rightarrow> wa_change list option \<Rightarrow> store \<Rightarrow> store" where
  \<comment> \<open>\<open>WhatsAppService.handleWebhook\<close> on \<open>entry[0].changes\<close>, \<open>None\<close> when the payload
      has none\<close>
  "WhatsAppService_handleWebhook e now changes s =
     (case changes of
        None \<Rightarrow> s
      | Some cs \<Rightarrow>
         fold (\<lambda>change s0.
                 let s1 = (case wc_messages change of
                             Some ms \<Rightarrow> if wc_field change = ''messages''
                                        then fold (processIncomingMessage e now) ms s0 else s0
                           | None \<Rightarrow> s0)
                 in case wc_statuses change of
                      Some sts \<Rightarrow> if wc_field change = ''messages''
                                  then fold (processMessageStatus now) sts s1 else s1
                    | None \<Rightarrow> s1) cs s)"

definition handleWhatsAppWebhook ::
  "env \<Rightarrow> timestamp \<Rightarrow> (wa_change list option \<Rightarrow> string) \<Rightarrow> wa_change list option \<Rightarrow> store \<Rightarrow>
   unit reply \<times> store" where
  \<comment> \<open>\<open>WebhookController.handleWhatsAppWebhook\<close>; the service catches its own errors,
      so the handler's catch block is never entered\<close>
  "handleWhatsAppWebhook e now stringify body s =
     (Reply 200 None,
      WhatsAppService_handleWebhook e now body
        (logWebhook e now ''whatsapp'' ''message_received'' (stringify body) ''pending'' None s))"


section \<open>Example data\<close>

definition example_response :: status_response where
  "example_response =
     \<lparr>r_transaction_id = ''T1'', r_status = ''pending'', r_amount = 120,
      r_currency = ''USD'', r_payment_method = ''credit_card'',
      r_gateway_response = ''{}'', r_metadata = None\<rparr>"

definition refund_response :: status_response where
  "refund_response =
     \<lparr>r_transaction_id = ''T2'', r_status = ''refunded'', r_amount = 80,
      r_currency = ''USD'', r_payment_method = ''credit_card'',
      r_gateway_response = ''{}'', r_metadata = None\<rparr>"

definition success_response :: status_response where
  "success_response =
     \<lparr>r_transaction_id = ''T1'', r_status = ''success'', r_amount = 120,
      r_currency = ''USD'', r_payment_method = ''credit_card'',
      r_gateway_response = ''{}'', r_metadata = None\<rparr>"

text \<open>
  The environment of the examples: the status source knows \<open>T1\<close> (pending) and \<open>T2\<close>
  (refunded), no transport is configured, the transaction webhook secret is \<open>s\<close>, the
  store accepts every payload as JSONB, and a stand-in takes the place of HMAC-SHA256
  (the secret followed by the payload), which is enough to tell one signature from
  another. In \<open>settling_env\<close> the status source reports \<open>T1\<close> as \<open>success\<close>.
\<close>

definition example_env :: env where
  "example_env =
     \<lparr>fetchTransactionStatus =
        (\<lambda>tid. if tid = ''T1'' then Some example_response
               else if tid = ''T2'' then Some refund_response else None),
      email_configured = False, email_accepted = False,
      whatsapp_configured = False, whatsapp_accepted = None,
      TRANSACTION_WEBHOOK_SECRET = Some ''s'', CRM_WEBHOOK_SECRET = None,
      SUPPORT_EMAILS = None,
      hmac_sha256_hex = (\<lambda>secret payload. secret @ payload),
      jsonb_accepts = (\<lambda>payload. True)\<rparr>"

definition settling_env :: env where
  "settling_env =
     example_env\<lparr>fetchTransactionStatus :=
                   (\<lambda>tid. if tid = ''T1'' then Some success_response else None)\<rparr>"

definition example_transaction :: transaction where
  "example_transaction =
     \<lparr>tx_id = 1, tx_transaction_id = ''T1'', tx_payer_email = ''c@x.com'',
      tx_merchant_email = ''m@x.com'', tx_amount = 120, tx_currency = ''USD'',
      tx_status = ''pending'', tx_payment_method = None, tx_gateway_response = ''{}'',
      tx_created_at = 3, tx_updated_at = 3, tx_completed_at = None, tx_metadata = []\<rparr>"

definition example_store :: store where
  "example_store =
     \<lparr>tickets = [], tickets_id_seq = 0, transactions = [example_transaction],
      transactions_id_seq = 1, status_updates = [], email_logs = [], whatsapp_logs = [],
      webhook_logs = []\<rparr>"

definition success_request :: status_request where
  "success_request = \<lparr>sr_status = Some ''success'', sr_reason = None, sr_updated_by = None\<rparr>"

definition same_status_request :: status_request where
  "same_status_request = \<lparr>sr_status = Some ''pending'', sr_reason = None, sr_updated_by = None\<rparr>"

definition example_ticket :: ticket where
  "example_ticket =
     \<lparr>tk_id = 1, tk_ticket_number = ''TK1001'', tk_customer_email = ''c@x.com'',
      tk_merchant_email = None, tk_subject = ''Payment failed'', tk_description = None,
      tk_status = Open, tk_priority = Medium, tk_transaction_id = None, tk_created_at = 2,
      tk_updated_at = 2, tk_resolved_at = None, tk_assigned_to = None, tk_tags = [],
      tk_metadata = []\<rparr>"

definition ticket_store :: store where
  "ticket_store =
     \<lparr>tickets = [example_ticket], tickets_id_seq = 1, transactions = [],
      transactions_id_seq = 0, status_updates = [], email_logs = [], whatsapp_logs = [],
      webhook_logs = []\<rparr>"



definition long_name :: string where
  \<comment> \<open>a name of 256 characters\<close>
  "long_name = replicate 256 CHR ''a''"

definition signed_update :: ticket_update where
  \<comment> \<open>the Update to \<open>resolved\<close> with \<open>updated_by\<close> set to the long name\<close>
  "signed_update =
     \<lparr>u_status = Some Resolved, u_priority = None, u_assigned_to = None, u_tags = None,
      u_metadata = None, u_resolution = None, u_updated_by = Some long_name\<rparr>"

definition search_filter :: ticket_filter where
  "search_filter =
     \<lparr>f_page = None, f_limit = None, f_status = None, f_priority = None,
      f_customer_email = None, f_merchant_email = None, f_assigned_to = None,
      f_transaction_id = None, f_date_from = None, f_date_to = None,
      f_search = Some ''payment''\<rparr>"

text \<open>
  Webhook bodies. JSON texts are stood in for by short texts: \<open>example_parse\<close> reads
  \<open>T1:pending\<close> and, with blanks around the colon, \<open>T1 : pending\<close> as the event for
  \<open>T1\<close>, \<open>T9:pending\<close> as the event for \<open>T9\<close>, and \<open>:\<close> as a body with neither field;
  \<open>example_stringify\<close> renders an event without blanks.
\<close>

definition example_event :: transaction_event where
  "example_event = \<lparr>te_transaction_id = Some ''T1'', te_status = Some ''pending''\<rparr>"

definition unknown_event :: transaction_event where
  "unknown_event = \<lparr>te_transaction_id = Some ''T9'', te_status = Some ''pending''\<rparr>"

definition other_event :: transaction_event where
  "other_event = \<lparr>te_transaction_id = None, te_status = None\<rparr>"

definition example_stringify :: "transaction_event \<Rightarrow> string" where
  "example_stringify b =
     or_default (te_transaction_id b) [] @ '':'' @ or_default (te_status b) []"

definition example_parse :: "string \<Rightarrow> transaction_event option" where
  "example_parse raw =
     (if raw = ''T1:pending'' \<or> raw = ''T1 : pending'' then Some example_event
      else if raw = ''T9:pending'' then Some unknown_event
      else if raw = '':'' then Some other_event
      else None)"

definition long_crm_event :: crm_event where
  \<comment> \<open>a CRM event whose \<open>event_type\<close> has 101 characters\<close>
  "long_crm_event =
     \<lparr>ce_event_type = Some (replicate 101 CHR ''x''), ce_ticket_id = None,
      ce_customer_id = None\<rparr>"


section \<open>Supporting lemmas\<close>

lemma logEmail_tables:
  "transactions (logEmail now ed st err s) = transactions s"
  "status_updates (logEmail now ed st err s) = status_updates s"
  "tickets (logEmail now ed st err s) = tickets s"
  "webhook_logs (logEmail now ed st err s) = webhook_logs s"
  "whatsapp_logs (logEmail now ed st err s) = whatsapp_logs s"
  "length (email_logs (logEmail now ed st err s)) = Suc (length (email_logs s))"
  by (simp_all add: logEmail_def)

lemma sendEmail_tables:
  "transactions (snd (sendEmail e now ed s)) = transactions s"
  "status_updates (snd (sendEmail e now ed s)) = status_updates s"
  "tickets (snd (sendEmail e now ed s)) = tickets s"
  "webhook_logs (snd (sendEmail e now ed s)) = webhook_logs s"
  "whatsapp_logs (snd (sendEmail e now ed s)) = whatsapp_logs s"
  by (simp_all add: sendEmail_def logEmail_tables)

lemma sendMessage_tables:
  "transactions (snd (sendMessage e now m s)) = transactions s"
  "status_updates (snd (sendMessage e now m s)) = status_updates s"
  "tickets (snd (sendMessage e now m s)) = tickets s"
  "webhook_logs (snd (sendMessage e now m s)) = webhook_logs s"
  "email_logs (snd (sendMessage e now m s)) = email_logs s"
  by (simp_all add: sendMessage_def logMessage_def split: option.split)

text \<open>
  The notification helper for transactions is handed a row of the store, whose amount
  is text; rendering the template throws, the helper catches it, and nothing is sent or
  logged.
\<close>

lemma sendTransactionNotifications_caught:
  "sendTransactionNotifications e now t s = s"
  by (simp add: sendTransactionNotifications_def getTransactionStatusUpdateTemplate_def
      toFixed_def row_amount_def)

text \<open>
  How the store types the parameters of the statements of the transaction workflow.
\<close>

lemma prepare_id_select: "prepare id_select_statement = None"
  by (simp add: prepare_def id_select_statement_def)

lemma prepare_key_select: "prepare key_select_statement = Some Undefined_operator"
  by (simp add: prepare_def key_select_statement_def)

lemma prepare_manual_update:
  "prepare manual_update_statement = Some Inconsistent_parameter_types"
  by (simp add: prepare_def manual_update_statement_def)

lemma prepare_synced_update:
  "prepare synced_update_statement = Some Inconsistent_parameter_types"
  by (simp add: prepare_def synced_update_statement_def)

lemma prepare_upsert: "prepare upsert_statement = Some Ambiguous_column"
  by (simp add: prepare_def upsert_statement_def)

lemma find_transaction_refused: "find_transaction key s = Inl Undefined_operator"
  by (simp add: find_transaction_def select_transactions_def prepare_key_select)

lemma select_by_transaction_id:
  "select_transactions id_select_statement P s = Inr (filter P (transactions s))"
  by (simp add: select_transactions_def prepare_id_select)

lemma synced_update_refused:
  "update_transactions synced_update_statement P st f s = Inl Inconsistent_parameter_types"
  by (simp add: update_transactions_def prepare_synced_update)

lemma manual_update_refused:
  "update_transactions manual_update_statement P st f s = Inl Inconsistent_parameter_types"
  by (simp add: update_transactions_def prepare_manual_update)

lemma insert_transaction_refused: "insert_transaction now r s = Inl Ambiguous_column"
  by (simp add: insert_transaction_def prepare_upsert)

lemma varchar_short: "length v \<le> n \<Longrightarrow> varchar n v = Some v"
  by (simp add: varchar_def)

lemma varchar_status: "varchar 50 (ticket_status_text st) = Some (ticket_status_text st)"
  by (cases st) (simp_all add: varchar_def)

lemma insert_status_update_accepted:
  assumes "insert_status_update now et i old new r w s = Inr s'"
  shows "tickets s' = tickets s" and "transactions s' = transactions s"
    and "email_logs s' = email_logs s" and "whatsapp_logs s' = whatsapp_logs s"
    and "webhook_logs s' = webhook_logs s"
    and "\<exists>row. status_updates s' = status_updates s @ [row]"
  using assms
  by (auto simp add: insert_status_update_def split: option.splits)

lemma filter_unique_key:
  assumes "distinct (map f xs)" and "x \<in> set xs"
  shows "filter (\<lambda>t. f t = f x) xs = [x]"
  using assms
proof (induction xs)
  case Nil
  then show ?case by simp
next
  case (Cons a xs)
  show ?case
  proof (cases "a = x")
    case True
    have "f x \<notin> f ` set xs" using Cons.prems(1) True by simp
    then have "\<And>t. t \<in> set xs \<Longrightarrow> f t \<noteq> f x" by (metis imageI)
    then have "filter (\<lambda>t. f t = f x) xs = []" by (simp add: filter_empty_conv)
    then show ?thesis using True by simp
  next
    case False
    then have "x \<in> set xs" using Cons.prems(2) by simp
    moreover have "f a \<noteq> f x" using Cons.prems(1) \<open>x \<in> set xs\<close> by auto
    ultimately show ?thesis using Cons by simp
  qed
qed



section \<open>Properties of the transaction workflow\<close>

text \<open>
  C3. SyncStatus with an unchanged external status: when the status source answers
  for the id, a local row exists and the fetched status equals the stored one,
  \<open>TransactionService.updateTransactionStatus\<close> returns the existing row and leaves the
  whole store as it was: no column of any transaction changes (\<open>updated_at\<close> included),
  no StatusUpdate row is appended, no notification is logged. Two calls in succession
  under the same external state do the same, whatever the clock shows at the second.
\<close>

theorem SyncStatus_unchanged_is_noop:
  assumes "fetchTransactionStatus e tid = Some r"
    and "filter (\<lambda>t. tx_transaction_id t = tid) (transactions s) = cur # others"
    and "tx_status cur = r_status r"
  shows "TransactionService_updateTransactionStatus e now tid s = (Some cur, s)
       \<and> TransactionService_updateTransactionStatus e now' tid
           (snd (TransactionService_updateTransactionStatus e now tid s)) = (Some cur, s)"
  using assms
  by (simp add: TransactionService_updateTransactionStatus_def select_by_transaction_id)

theorem SyncStatus_unchanged_is_noop_witness:
  "TransactionService_updateTransactionStatus example_env 9 ''T1'' example_store
     = (Some example_transaction, example_store)
   \<and> TransactionService_updateTransactionStatus example_env 12 ''T1''
       (snd (TransactionService_updateTransactionStatus example_env 9 ''T1'' example_store))
     = (Some example_transaction, example_store)"
proof -
  have 1: "fetchTransactionStatus example_env ''T1'' = Some example_response"
    by (simp add: example_env_def)
  have 2: "filter (\<lambda>t. tx_transaction_id t = ''T1'') (transactions example_store)
             = example_transaction # []"
    by (simp add: example_store_def example_transaction_def)
  have 3: "tx_status example_transaction = r_status example_response"
    by (simp add: example_transaction_def example_response_def)
  show ?thesis by (rule SyncStatus_unchanged_is_noop [OF 1 2 3])
qed

text \<open>
  What SyncStatus does for every input. It never changes the store: the UPDATE of the
  branch for a changed status and the upsert of the branch for an unknown transaction
  are refused by the store, the error is caught, and the call returns \<open>null\<close>. It
  returns a transaction in one case only, the stored row when the status source reports
  the status the row already has.
\<close>

lemma SyncStatus_result:
  "TransactionService_updateTransactionStatus e now tid s
     = ((case fetchTransactionStatus e tid of
           None \<Rightarrow> None
         | Some r \<Rightarrow>
            (case filter (\<lambda>t. tx_transaction_id t = tid) (transactions s) of
               [] \<Rightarrow> None
             | cur # others \<Rightarrow> if tx_status cur = r_status r then Some cur else None)), s)"
  by (simp add: TransactionService_updateTransactionStatus_def select_by_transaction_id
      synced_update_refused insert_transaction_refused split: option.split list.split)

lemma SyncStatus_second_call_is_noop:
  "TransactionService_updateTransactionStatus e now' tid
     (snd (TransactionService_updateTransactionStatus e now tid s))
   = TransactionService_updateTransactionStatus e now tid s"
  by (simp add: SyncStatus_result)

text \<open>
  ManualStatusUpdate for every input: with a status supplied the first statement, the
  SELECT that compares its one parameter with both \<open>transaction_id\<close> and \<open>id\<close>, is
  refused by the store, and the handler answers 500 having written nothing. The
  refresh endpoint starts with the same SELECT.
\<close>

lemma ManualStatusUpdate_reply:
  "TransactionController_updateTransactionStatus e now key body s
     = (Reply (if truthy (sr_status body) then 500 else 400) None, s)"
  by (simp add: TransactionController_updateTransactionStatus_def find_transaction_refused
      truthy_def split: option.split)

lemma refresh_is_refused:
  "refreshTransactionStatus e now key s = (Reply 500 None, s)"
  by (simp add: refreshTransactionStatus_def find_transaction_refused)

text \<open>
  C1. The first update of a transaction into a terminal status. Transaction \<open>T1\<close> is
  stored with status \<open>pending\<close> and no \<open>completed_at\<close>. ManualStatusUpdate of \<open>T1\<close> to
  \<open>success\<close> at time 9 is answered 500 and leaves the store as it was; SyncStatus of
  \<open>T1\<close> at time 9, when the status source reports \<open>success\<close>, returns \<open>null\<close> and leaves
  the store as it was. After either, \<open>completed_at\<close> of \<open>T1\<close> is still not set.
\<close>

theorem completed_at_is_not_set:
  "map tx_status (transactions example_store) = [''pending'']
   \<and> map tx_completed_at (transactions example_store) = [None]
   \<and> terminal_status ''success''
   \<and> TransactionController_updateTransactionStatus example_env 9 ''T1'' success_request
        example_store = (Reply 500 None, example_store)
   \<and> map_option r_status (fetchTransactionStatus settling_env ''T1'') = Some ''success''
   \<and> TransactionService_updateTransactionStatus settling_env 9 ''T1'' example_store
        = (None, example_store)"
  by (simp add: ManualStatusUpdate_reply SyncStatus_result success_request_def truthy_def
      settling_env_def example_env_def success_response_def example_store_def
      example_transaction_def terminal_status_def)

text \<open>
  C10. ManualStatusUpdate with the status the transaction already has. \<open>T1\<close> is stored
  with status \<open>pending\<close>; ManualStatusUpdate of \<open>T1\<close> to \<open>pending\<close> is answered 500, and
  the store is as before: no StatusUpdate row, no notification.
\<close>

theorem ManualStatusUpdate_writes_nothing:
  "map tx_status (transactions example_store) = [''pending'']
   \<and> sr_status same_status_request = Some ''pending''
   \<and> TransactionController_updateTransactionStatus example_env 9 ''T1'' same_status_request
        example_store = (Reply 500 None, example_store)
   \<and> status_updates example_store = [] \<and> email_logs example_store = []"
  by (simp add: ManualStatusUpdate_reply same_status_request_def truthy_def example_store_def
      example_transaction_def)

text \<open>
  BatchSync skips an id whose SyncStatus fails and goes on with the rest; the result of
  a successful SyncStatus is put in front of the results of the rest.
\<close>

lemma BatchSync_skips_failure:
  "TransactionService_updateTransactionStatus e now tid s = (None, s1) \<Longrightarrow>
   batchUpdateTransactions e now (tid # rest) s = batchUpdateTransactions e now rest s1"
  by simp

lemma BatchSync_keeps_success:
  "TransactionService_updateTransactionStatus e now tid s = (Some t, s1) \<Longrightarrow>
   batchUpdateTransactions e now (tid # rest) s
     = (t # fst (batchUpdateTransactions e now rest s1),
        snd (batchUpdateTransactions e now rest s1))"
  by (simp split: prod.split)

text \<open>
  C6. BatchSync on the ids \<open>T1\<close> and \<open>T9\<close>, where the status source has no answer for
  \<open>T9\<close> and reports for \<open>T1\<close> the status the store already holds: \<open>T9\<close> is skipped, and
  \<open>T1\<close> is returned among the updated transactions although the call changed nothing in
  the store.
\<close>

theorem BatchSync_returns_unchanged_transaction:
  "tx_status example_transaction = r_status example_response \<and>
   batchUpdateTransactions example_env 9 [''T1'', ''T9''] example_store
     = ([example_transaction], example_store)"
  by (simp add: SyncStatus_result example_env_def
      example_store_def example_transaction_def example_response_def)

text \<open>
  The batch endpoint reports \<open>T1\<close> as updated in the same way.
\<close>

lemma batch_endpoint_reports_unchanged:
  "TransactionController_batchUpdateTransactions example_env 9 (Some [''T1'']) example_store
     = (Reply 200 (Some [example_transaction]), example_store)"
  by (simp add: TransactionController_batchUpdateTransactions_def SyncStatus_result
      sendTransactionNotifications_caught example_env_def example_store_def
      example_transaction_def example_response_def)


section \<open>Properties of the ticket workflow\<close>

lemma sendStatusNotifications_tables:
  "tickets (sendStatusNotifications e now t st r s) = tickets s"
  "status_updates (sendStatusNotifications e now t st r s) = status_updates s"
  "transactions (sendStatusNotifications e now t st r s) = transactions s"
  "webhook_logs (sendStatusNotifications e now t st r s) = webhook_logs s"
  by (simp_all add: sendStatusNotifications_def Let_def sendEmail_tables sendMessage_tables)

text \<open>
  Update on an existing ticket always writes the ticket's row, whatever happens to the
  audit row afterwards.
\<close>

lemma set_ticket_fields_id: "tk_id (set_ticket_fields now u cur t) = tk_id t"
  by (simp add: set_ticket_fields_def)

lemma updateTicket_tickets:
  assumes "select_ticket key s = Inr (cur # others)"
  shows "tickets (snd (updateTicket e now key u s))
           = map (\<lambda>t. if tk_id t = tk_id cur then set_ticket_fields now u cur t else t)
               (tickets s)"
proof (cases "u_status u")
  case None
  then show ?thesis using assms by (simp add: updateTicket_def Let_def)
next
  case (Some st)
  let ?s1 = "s\<lparr>tickets :=
                map (\<lambda>t. if tk_id t = tk_id cur then set_ticket_fields now u cur t else t)
                  (tickets s)\<rparr>"
  show ?thesis
  proof (cases "insert_status_update now Ticket_entity (tk_id cur)
                  (Some (ticket_status_text (tk_status cur))) (ticket_status_text st)
                  (Some (or_default (u_resolution u) ''Status updated''))
                  (Some (or_default (u_updated_by u) ''system'')) ?s1")
    case (Inl err)
    then show ?thesis using assms Some
      by (simp add: updateTicket_def Let_def set_ticket_fields_id)
  next
    case (Inr s2)
    have "tickets s2 = tickets ?s1"
      by (rule insert_status_update_accepted(1) [OF Inr])
    then show ?thesis using assms Some Inr
      by (simp add: updateTicket_def Let_def set_ticket_fields_id
          sendStatusNotifications_tables)
  qed
qed

text \<open>
  When the store accepts the audit row (\<open>updated_by\<close>, or \<open>system\<close> in its place, fits
  its column), Update with a status supplied answers 200, sets \<open>updated_at\<close> to the
  time of the call, appends exactly one StatusUpdate row if the supplied status differs
  from the current one, and leaves the audit log as it was if it does not.
\<close>

lemma Update_audits_accepted_status_changes:
  assumes "select_ticket key s = Inr (cur # others)"
    and "u_status u = Some st"
    and "varchar 255 (or_default (u_updated_by u) ''system'') = Some who"
  shows "fst (updateTicket e now key u s) = Reply 200 (Some (set_ticket_fields now u cur cur))
       \<and> tk_updated_at (set_ticket_fields now u cur cur) = now
       \<and> map tk_updated_at (tickets (snd (updateTicket e now key u s)))
           = map (\<lambda>t. if tk_id t = tk_id cur then now else tk_updated_at t) (tickets s)
       \<and> (st \<noteq> tk_status cur \<longrightarrow>
            status_updates (snd (updateTicket e now key u s))
              = status_updates s @
                [\<lparr>su_entity_type = Ticket_entity, su_entity_id = tk_id cur,
                  su_old_status = Some (ticket_status_text (tk_status cur)),
                  su_new_status = ticket_status_text st,
                  su_updated_by = Some who,
                  su_update_reason = Some (or_default (u_resolution u) ''Status updated''),
                  su_created_at = now\<rparr>])
       \<and> (st = tk_status cur \<longrightarrow>
            status_updates (snd (updateTicket e now key u s)) = status_updates s)"
  using assms
  by (simp add: updateTicket_tickets [OF assms(1)] updateTicket_def Let_def
      insert_status_update_def varchar_opt_def varchar_status sendStatusNotifications_tables
      set_ticket_fields_def)

text \<open>
  When the store refuses the audit row, the status change stays written without it.
\<close>

lemma Update_without_audit_row:
  assumes "select_ticket key s = Inr (cur # others)"
    and "u_status u = Some st" and "st \<noteq> tk_status cur"
    and "varchar 255 (or_default (u_updated_by u) ''system'') = None"
  shows "fst (updateTicket e now key u s) = Reply 500 None
       \<and> map tk_status (tickets (snd (updateTicket e now key u s)))
           = map (\<lambda>t. if tk_id t = tk_id cur then st else tk_status t) (tickets s)
       \<and> status_updates (snd (updateTicket e now key u s)) = status_updates s"
  using assms
  by (simp add: updateTicket_tickets [OF assms(1)] updateTicket_def Let_def
      insert_status_update_def varchar_opt_def varchar_status set_ticket_fields_def)


lemma as_integer_1: "as_integer ''1'' = Some 1"
  by (simp add: as_integer_def pg_space_def is_digit_def digit_of_def Let_def)

lemma select_example_ticket: "select_ticket ''1'' ticket_store = Inr (example_ticket # [])"
  by (simp add: select_ticket_def as_integer_1 ticket_store_def example_ticket_def)

text \<open>
  C4. Update of the open ticket 1 to \<open>resolved\<close>, with an \<open>updated_by\<close> of 256
  characters, at time 9: the call is answered 500, the ticket is resolved, and the
  audit log has no row for the transition.
\<close>

theorem Update_changes_status_without_audit_row:
  "length (the (u_updated_by signed_update)) = 256
   \<and> u_status signed_update = Some Resolved
   \<and> map tk_status (tickets ticket_store) = [Open]
   \<and> fst (updateTicket example_env 9 ''1'' signed_update ticket_store) = Reply 500 None
   \<and> map tk_status (tickets (snd (updateTicket example_env 9 ''1'' signed_update ticket_store)))
       = [Resolved]
   \<and> status_updates (snd (updateTicket example_env 9 ''1'' signed_update ticket_store))
       = status_updates ticket_store"
proof -
  have st: "u_status signed_update = Some Resolved" by (simp add: signed_update_def)
  have ne: "Resolved \<noteq> tk_status example_ticket" by (simp add: example_ticket_def)
  have long: "varchar 255 (or_default (u_updated_by signed_update) ''system'') = None"
    by (simp add: signed_update_def long_name_def or_default_def varchar_def)
  have len: "length (the (u_updated_by signed_update)) = 256"
    by (simp add: signed_update_def long_name_def)
  have tk: "map tk_status (tickets ticket_store) = [Open]"
    "map (\<lambda>t. if tk_id t = tk_id example_ticket then Resolved else tk_status t)
       (tickets ticket_store) = [Resolved]"
    by (simp_all add: ticket_store_def example_ticket_def)
  from Update_without_audit_row [OF select_example_ticket st ne long, of example_env 9]
  show ?thesis by (simp add: st len tk)
qed





text \<open>
  C5. Close changes the status of the ticket and the audit log is not touched: no
  input makes \<open>deleteTicket\<close> append a StatusUpdate row. The scheduler's auto-close,
  which performs the same transition, does append one.
\<close>

lemma deleteTicket_status_updates:
  "status_updates (snd (deleteTicket now key s)) = status_updates s"
  by (simp add: deleteTicket_def split: option.split)

lemma close_resolved_ticket_audits:
  "\<exists>s'. close_resolved_ticket now t s = Inr s' \<and>
     status_updates s'
       = status_updates s @
         [\<lparr>su_entity_type = Ticket_entity, su_entity_id = tk_id t,
           su_old_status = Some ''resolved'', su_new_status = ''closed'',
           su_updated_by = Some ''system'',
           su_update_reason = Some ''Auto-closed after 24 hours'', su_created_at = now\<rparr>]"
  by (simp add: close_resolved_ticket_def close_ticket_row_def insert_status_update_def
      varchar_opt_def varchar_def)

text \<open>
  A ticket created from an inbound email gets no audit row for its creation either.
\<close>

lemma processIncomingEmail_status_updates:
  "processIncomingEmail e now n ev s = Inr (t, s') \<Longrightarrow> status_updates s' = status_updates s"
  by (auto simp add: processIncomingEmail_def Let_def sendEmail_tables split: if_splits)

text \<open>
  C5 at a concrete input: Close of the open ticket 1 answers 200, the ticket is closed,
  and the audit log has no row for the transition.
\<close>

theorem Close_appends_no_audit_row:
  "fst (deleteTicket 9 ''1'' ticket_store) = Reply 200 None
   \<and> map tk_status (tickets ticket_store) = [Open]
   \<and> map tk_status (tickets (snd (deleteTicket 9 ''1'' ticket_store))) = [Closed]
   \<and> status_updates (snd (deleteTicket 9 ''1'' ticket_store)) = status_updates ticket_store"
  by (simp add: deleteTicket_def as_integer_1 ticket_store_def example_ticket_def)

lemma push_filter_index:
  "paramIndex b = Suc (length (queryParams b)) \<Longrightarrow>
   paramIndex (push_filter mk v b) = Suc (length (queryParams (push_filter mk v b)))"
  by (simp add: push_filter_def)

lemma push_text_index:
  "paramIndex b = Suc (length (queryParams b)) \<Longrightarrow>
   paramIndex (push_text x mk w b) = Suc (length (queryParams (push_text x mk w b)))"
  by (simp add: push_text_def push_filter_index)

lemma push_time_index:
  "paramIndex b = Suc (length (queryParams b)) \<Longrightarrow>
   paramIndex (push_time x mk b) = Suc (length (queryParams (push_time x mk b)))"
  by (simp add: push_time_def push_filter_index split: option.split)

lemma search_shifts_index:
  assumes "truthy (f_search f)"
  shows "paramIndex (build_ticket_filters f)
           = length (queryParams (build_ticket_filters f)) + 3"
proof -
  define b8 where "b8 =
     push_time (f_date_to f) (Le C_created_at)
      (push_time (f_date_from f) (Ge C_created_at)
       (push_text (f_transaction_id f) (Eq C_transaction_id) P_text
        (push_text (f_assigned_to f) (ILike C_assigned_to) pattern
         (push_text (f_merchant_email f) (ILike C_merchant_email) pattern
          (push_text (f_customer_email f) (ILike C_customer_email) pattern
           (push_text (f_priority f) (Eq C_priority) P_text
            (push_text (f_status f) (Eq C_status) P_text
              \<lparr>whereConditions = [], queryParams = [], paramIndex = 1\<rparr>)))))))"
  have inv: "paramIndex b8 = Suc (length (queryParams b8))"
    unfolding b8_def
    by (intro push_time_index push_text_index) simp
  have "build_ticket_filters f = push_search (f_search f) b8"
    by (simp add: build_ticket_filters_def b8_def Let_def)
  then show ?thesis using assms inv by (simp add: push_search_def)
qed

lemma List_with_search_fails:
  assumes "truthy (f_search f)"
  shows "getTickets f s = Reply 500 None"
proof -
  let ?b = "build_ticket_filters f"
  let ?ps = "queryParams ?b @ [P_int (parseInt_or (f_limit f) 10),
               P_int ((parseInt_or (f_page f) 1 - 1) * parseInt_or (f_limit f) 10)]"
  have "paramIndex ?b \<notin> {1 ..< Suc (length ?ps)}"
    using search_shifts_index [OF assms] by simp
  then have "\<not> bind_ok (concat (map placeholders (whereConditions ?b))
                 @ [paramIndex ?b, Suc (paramIndex ?b)]) ?ps"
    unfolding bind_ok_def by (metis in_set_conv_decomp set_append list.set_intros(1) UnCI)
  then show ?thesis
    by (simp add: getTickets_def Let_def select_tickets_page_def)
qed

text \<open>
  Without a search text the same request is answered with the page.
\<close>

lemma List_without_filters:
  "getTickets (search_filter\<lparr>f_search := None\<rparr>) ticket_store
     = Reply 200 (Some \<lparr>pg_tickets = [example_ticket], pg_page = 1, pg_limit = 10,
         pg_total = 1, pg_totalPages = 1, pg_hasNext = False, pg_hasPrev = False\<rparr>)"
proof -
  have "{Suc 0, Suc (Suc 0)} = {Suc 0 ..< Suc (Suc (Suc 0))}" by auto
  then show ?thesis
    by (simp add: getTickets_def search_filter_def build_ticket_filters_def push_text_def
      push_time_def push_search_def truthy_def parseInt_or_def select_tickets_page_def
      count_tickets_def bind_ok_def param_at_def ticket_store_def Let_def)
qed

text \<open>
  C8. List with a free-text search: the search block advances \<open>paramIndex\<close> by five for
  its three values, so LIMIT and OFFSET name placeholders beyond the values supplied,
  the statement fails and the request is answered with 500 (lemma
  \<open>List_with_search_fails\<close>, for every request with a search text). Here for the search
  text \<open>payment\<close>, which the subject of the stored ticket contains.
\<close>

theorem List_with_search_is_rejected:
  "getTickets search_filter ticket_store = Reply 500 None"
proof -
  have "truthy (f_search search_filter)" by (simp add: search_filter_def truthy_def)
  then show ?thesis by (rule List_with_search_fails)
qed


section \<open>Properties of webhook ingestion\<close>

lemma logWebhook_tables:
  "transactions (logWebhook e now src ev p st err s) = transactions s"
  "status_updates (logWebhook e now src ev p st err s) = status_updates s"
  "tickets (logWebhook e now src ev p st err s) = tickets s"
  "email_logs (logWebhook e now src ev p st err s) = email_logs s"
  "whatsapp_logs (logWebhook e now src ev p st err s) = whatsapp_logs s"
  "transactions_id_seq (logWebhook e now src ev p st err s) = transactions_id_seq s"
  by (simp_all add: logWebhook_def split: option.split)

lemma logWebhook_rows:
  "webhook_logs (logWebhook e now src ev p st err s)
     = webhook_logs s @
       (case webhook_log_row e now src ev p st err of None \<Rightarrow> [] | Some row \<Rightarrow> [row])"
  by (simp add: logWebhook_def split: option.split)

text \<open>
  Whether the store accepts a row of the webhook log depends on its source, event type
  and payload, and not on which of the three statuses it carries.
\<close>

lemma webhook_log_row_fields:
  "webhook_log_row e now src ev p st err = Some row \<Longrightarrow>
   wh_status row = st \<and> wh_payload row = p \<and> wh_created_at row = now"
  by (auto simp add: webhook_log_row_def split: option.splits if_splits)

lemma webhook_log_row_refused:
  assumes "webhook_log_row e now src ev p ''pending'' None = None"
  shows "webhook_log_row e now src ev p st err = None"
  using assms
  by (auto simp add: webhook_log_row_def webhook_log_statuses_def split: option.splits if_splits)

lemma webhook_log_row_accepted:
  assumes "webhook_log_row e now src ev p ''pending'' None = Some row"
    and "st \<in> set webhook_log_statuses"
  shows "\<exists>row'. webhook_log_row e now src ev p st err = Some row' \<and> wh_status row' = st"
  using assms
  by (auto simp add: webhook_log_row_def split: option.splits if_splits)

lemma outcome_rows:
  assumes "webhook_log_row e now src ev p ''pending'' None = Some row"
    and "st \<in> set webhook_log_statuses"
  shows "map wh_status
           (case webhook_log_row e now src ev p st err of None \<Rightarrow> [] | Some row' \<Rightarrow> [row'])
         = [st]"
  using webhook_log_row_accepted [OF assms, of err] by auto

lemma SyncStatus_webhook_logs:
  "webhook_logs (snd (TransactionService_updateTransactionStatus e now tid s)) = webhook_logs s"
  by (simp add: SyncStatus_result)

lemma processIncomingEmail_webhook_logs:
  "processIncomingEmail e now n ev s = Inr (t, s') \<Longrightarrow> webhook_logs s' = webhook_logs s"
  by (auto simp add: processIncomingEmail_def Let_def sendEmail_tables split: if_splits)

lemma processIncomingMessage_webhook_logs:
  "webhook_logs (processIncomingMessage e now m s) = webhook_logs s"
  by (simp add: processIncomingMessage_def Let_def sendMessage_tables)

lemma processMessageStatus_webhook_logs:
  "webhook_logs (processMessageStatus now st s) = webhook_logs s"
  by (simp add: processMessageStatus_def Let_def)

lemma fold_preserves:
  assumes "\<And>x s. g (f x s) = g s"
  shows "g (fold f xs s) = g s"
  using assms by (induction xs arbitrary: s) auto

lemma WhatsAppService_handleWebhook_webhook_logs:
  "webhook_logs (WhatsAppService_handleWebhook e now body s) = webhook_logs s"
proof (cases body)
  case None
  then show ?thesis by (simp add: WhatsAppService_handleWebhook_def)
next
  case (Some cs)
  have "webhook_logs (fold (\<lambda>change s0.
                 let s1 = (case wc_messages change of
                             Some ms \<Rightarrow> if wc_field change = ''messages''
                                        then fold (processIncomingMessage e now) ms s0 else s0
                           | None \<Rightarrow> s0)
                 in case wc_statuses change of
                      Some sts \<Rightarrow> if wc_field change = ''messages''
                                  then fold (processMessageStatus now) sts s1 else s1
                    | None \<Rightarrow> s1) cs s) = webhook_logs s"
    by (rule fold_preserves)
       (simp add: Let_def fold_preserves [where g = webhook_logs]
          processIncomingMessage_webhook_logs processMessageStatus_webhook_logs
          split: option.split)
  then show ?thesis using Some by (simp add: WhatsAppService_handleWebhook_def)
qed

text \<open>
  C2 as stated fails. A transaction webhook with a valid signature and payload, handled
  successfully, leaves two rows in the log: the row written first, still \<open>pending\<close>,
  and a second row \<open>processed\<close>. No row is reclassified.
\<close>

theorem webhook_pending_row_is_never_reclassified:
  "map wh_status (webhook_logs (snd
     (handleTransactionWebhook example_env 9 example_stringify (Some ''sha256=sT1:pending'')
        example_event example_store))) = [''pending'', ''processed'']"
  by (simp add: handleTransactionWebhook_def logWebhook_def webhook_log_row_def varchar_def
      webhook_log_statuses_def
      example_env_def example_stringify_def example_event_def verifySignature_def
      timingSafeEqual_def truthy_def or_default_def example_store_def example_transaction_def
      example_response_def SyncStatus_result
      sendTransactionNotifications_caught Let_def)

text \<open>
  The rows each handler leaves in the log, by the answer it gives.
\<close>

lemma transaction_webhook_logs:
  "webhook_logs (snd (handleTransactionWebhook e now str sg body s))
     = webhook_logs s @
       (case webhook_log_row e now ''transaction'' ''status_update'' (str body) ''pending'' None
        of None \<Rightarrow> [] | Some row \<Rightarrow> [row]) @
       (if reply_code (fst (handleTransactionWebhook e now str sg body s)) = 200
        then (case webhook_log_row e now ''transaction'' ''status_update'' (str body)
                     ''processed'' None
              of None \<Rightarrow> [] | Some row \<Rightarrow> [row])
        else if reply_code (fst (handleTransactionWebhook e now str sg body s)) = 500
        then (case webhook_log_row e now ''transaction'' ''status_update'' (str body)
                     ''failed'' (Some ''Failed to update transaction'')
              of None \<Rightarrow> [] | Some row \<Rightarrow> [row])
        else [])"
proof -
  let ?s1 = "logWebhook e now ''transaction'' ''status_update'' (str body) ''pending'' None s"
  obtain res where
    u: "TransactionService_updateTransactionStatus e now (the (te_transaction_id body)) ?s1
          = (res, ?s1)"
    by (simp add: SyncStatus_result)
  show ?thesis
    by (cases res)
       (simp_all add: handleTransactionWebhook_def Let_def u logWebhook_rows
          sendTransactionNotifications_caught)
qed

lemma transaction_webhook_rows:
  "(webhook_log_row e now ''transaction'' ''status_update'' (str body) ''pending'' None
      = Some row \<longrightarrow>
      (\<exists>extra. webhook_logs (snd (handleTransactionWebhook e now str sg body s))
                 = webhook_logs s @ row # extra
         \<and> map wh_status extra
            = (if reply_code (fst (handleTransactionWebhook e now str sg body s)) = 200
               then [''processed'']
               else if reply_code (fst (handleTransactionWebhook e now str sg body s)) = 500
               then [''failed''] else [])))
   \<and> (webhook_log_row e now ''transaction'' ''status_update'' (str body) ''pending'' None
        = None \<longrightarrow>
        webhook_logs (snd (handleTransactionWebhook e now str sg body s)) = webhook_logs s)"
proof (intro conjI impI)
  assume a: "webhook_log_row e now ''transaction'' ''status_update'' (str body) ''pending''
               None = Some row"
  have p: "''processed'' \<in> set webhook_log_statuses" "''failed'' \<in> set webhook_log_statuses"
    by (simp_all add: webhook_log_statuses_def)
  show "\<exists>extra. webhook_logs (snd (handleTransactionWebhook e now str sg body s))
                 = webhook_logs s @ row # extra
         \<and> map wh_status extra
            = (if reply_code (fst (handleTransactionWebhook e now str sg body s)) = 200
               then [''processed'']
               else if reply_code (fst (handleTransactionWebhook e now str sg body s)) = 500
               then [''failed''] else [])"
    unfolding transaction_webhook_logs [of e now str sg body s]
    by (simp add: a outcome_rows [OF a p(1)] outcome_rows [OF a p(2)])
next
  assume a: "webhook_log_row e now ''transaction'' ''status_update'' (str body) ''pending''
               None = None"
  show "webhook_logs (snd (handleTransactionWebhook e now str sg body s)) = webhook_logs s"
    unfolding transaction_webhook_logs [of e now str sg body s]
    by (simp add: a webhook_log_row_refused [OF a])
qed

lemma crm_webhook_logs:
  "webhook_logs (snd (handleCRMWebhook e now str sg body s))
     = webhook_logs s @
       (case webhook_log_row e now ''crm'' (or_default (ce_event_type body) ''unknown'')
               (str body) ''pending'' None
        of None \<Rightarrow> [] | Some row \<Rightarrow> [row]) @
       (if reply_code (fst (handleCRMWebhook e now str sg body s)) = 200
        then (case webhook_log_row e now ''crm'' (or_default (ce_event_type body) ''unknown'')
                     (str body) ''processed'' None
              of None \<Rightarrow> [] | Some row \<Rightarrow> [row])
        else [])"
  by (simp add: handleCRMWebhook_def Let_def logWebhook_rows)

lemma crm_webhook_rows:
  "(webhook_log_row e now ''crm'' (or_default (ce_event_type body) ''unknown'') (str body)
      ''pending'' None = Some row \<longrightarrow>
      (\<exists>extra. webhook_logs (snd (handleCRMWebhook e now str sg body s))
                 = webhook_logs s @ row # extra
         \<and> map wh_status extra
            = (if reply_code (fst (handleCRMWebhook e now str sg body s)) = 200
               then [''processed''] else [])))
   \<and> (webhook_log_row e now ''crm'' (or_default (ce_event_type body) ''unknown'') (str body)
        ''pending'' None = None \<longrightarrow>
        webhook_logs (snd (handleCRMWebhook e now str sg body s)) = webhook_logs s)"
proof (intro conjI impI)
  assume a: "webhook_log_row e now ''crm'' (or_default (ce_event_type body) ''unknown'')
               (str body) ''pending'' None = Some row"
  have p: "''processed'' \<in> set webhook_log_statuses"
    by (simp add: webhook_log_statuses_def)
  show "\<exists>extra. webhook_logs (snd (handleCRMWebhook e now str sg body s))
                 = webhook_logs s @ row # extra
         \<and> map wh_status extra
            = (if reply_code (fst (handleCRMWebhook e now str sg body s)) = 200
               then [''processed''] else [])"
    unfolding crm_webhook_logs [of e now str sg body s]
    by (simp add: a outcome_rows [OF a p])
next
  assume a: "webhook_log_row e now ''crm'' (or_default (ce_event_type body) ''unknown'')
               (str body) ''pending'' None = None"
  show "webhook_logs (snd (handleCRMWebhook e now str sg body s)) = webhook_logs s"
    unfolding crm_webhook_logs [of e now str sg body s]
    by (simp add: a webhook_log_row_refused [OF a])
qed

lemma email_webhook_logs:
  "webhook_logs (snd (handleEmailWebhook e now str n body s))
     = webhook_logs s @
       (case webhook_log_row e now ''email'' ''email_received'' (str body) ''pending'' None
        of None \<Rightarrow> [] | Some row \<Rightarrow> [row]) @
       (case fst (handleEmailWebhook e now str n body s) of
          Reply c (Some t) \<Rightarrow>
            (case webhook_log_row e now ''email'' ''email_received'' (str body)
                    ''processed'' None
             of None \<Rightarrow> [] | Some row \<Rightarrow> [row])
        | Reply c None \<Rightarrow>
            if c = 500
            then (case webhook_log_row e now ''email'' ''email_received'' (str body)
                         ''failed'' (Some ''insert failed'')
                  of None \<Rightarrow> [] | Some row \<Rightarrow> [row])
            else [])"
proof -
  let ?s1 = "logWebhook e now ''email'' ''email_received'' (str body) ''pending'' None s"
  have ign: "webhook_log_row e now ''email'' ''email_received'' (str body) ''ignored''
               (Some ''Not a support email'') = None"
    by (simp add: webhook_log_row_def webhook_log_statuses_def split: option.split)
  show ?thesis
  proof (cases "processIncomingEmail e now n body ?s1")
    case (Inl err)
    then show ?thesis
      by (simp add: handleEmailWebhook_def Let_def logWebhook_rows ign)
  next
    case (Inr p)
    obtain t s2 where p: "p = (t, s2)" by (cases p)
    have "webhook_logs s2 = webhook_logs ?s1"
      using processIncomingEmail_webhook_logs Inr p by blast
    then show ?thesis using Inr p
      by (simp add: handleEmailWebhook_def Let_def logWebhook_rows ign)
  qed
qed

lemma email_reply_with_ticket:
  "fst (handleEmailWebhook e now str n body s) = Reply c (Some t) \<Longrightarrow> c = 200"
  by (auto simp: handleEmailWebhook_def Let_def split: if_splits sum.splits prod.splits)

lemma email_webhook_rows:
  "(webhook_log_row e now ''email'' ''email_received'' (str body) ''pending'' None
      = Some row \<longrightarrow>
      (\<exists>extra. webhook_logs (snd (handleEmailWebhook e now str n body s))
                 = webhook_logs s @ row # extra
         \<and> (fst (handleEmailWebhook e now str n body s) = Reply 200 (Some t)
              \<longrightarrow> map wh_status extra = [''processed''])
         \<and> (reply_code (fst (handleEmailWebhook e now str n body s)) = 500
              \<longrightarrow> map wh_status extra = [''failed''])
         \<and> (reply_code (fst (handleEmailWebhook e now str n body s)) = 400
              \<longrightarrow> extra = [])))
   \<and> (webhook_log_row e now ''email'' ''email_received'' (str body) ''pending'' None
        = None \<longrightarrow>
        webhook_logs (snd (handleEmailWebhook e now str n body s)) = webhook_logs s)"
proof (intro conjI impI)
  assume a: "webhook_log_row e now ''email'' ''email_received'' (str body) ''pending'' None
               = Some row"
  have p: "''processed'' \<in> set webhook_log_statuses" "''failed'' \<in> set webhook_log_statuses"
    by (simp_all add: webhook_log_statuses_def)
  obtain c d where r: "fst (handleEmailWebhook e now str n body s) = Reply c d"
    by (cases "fst (handleEmailWebhook e now str n body s)")
  let ?extra = "(case fst (handleEmailWebhook e now str n body s) of
          Reply c (Some t) \<Rightarrow>
            (case webhook_log_row e now ''email'' ''email_received'' (str body)
                    ''processed'' None
             of None \<Rightarrow> [] | Some row \<Rightarrow> [row])
        | Reply c None \<Rightarrow>
            if c = 500
            then (case webhook_log_row e now ''email'' ''email_received'' (str body)
                         ''failed'' (Some ''insert failed'')
                  of None \<Rightarrow> [] | Some row \<Rightarrow> [row])
            else [])"
  have logs: "webhook_logs (snd (handleEmailWebhook e now str n body s))
                = webhook_logs s @ row # ?extra"
    unfolding email_webhook_logs [of e now str n body s] by (simp add: a)
  have "d \<noteq> None \<Longrightarrow> c = 200" using r email_reply_with_ticket by fastforce
  then have facts:
    "(fst (handleEmailWebhook e now str n body s) = Reply 200 (Some t)
        \<longrightarrow> map wh_status ?extra = [''processed''])
     \<and> (reply_code (fst (handleEmailWebhook e now str n body s)) = 500
        \<longrightarrow> map wh_status ?extra = [''failed''])
     \<and> (reply_code (fst (handleEmailWebhook e now str n body s)) = 400 \<longrightarrow> ?extra = [])"
    using r by (cases d) (auto simp add: outcome_rows [OF a p(1)] outcome_rows [OF a p(2)])
  show "\<exists>extra. webhook_logs (snd (handleEmailWebhook e now str n body s))
                 = webhook_logs s @ row # extra
         \<and> (fst (handleEmailWebhook e now str n body s) = Reply 200 (Some t)
              \<longrightarrow> map wh_status extra = [''processed''])
         \<and> (reply_code (fst (handleEmailWebhook e now str n body s)) = 500
              \<longrightarrow> map wh_status extra = [''failed''])
         \<and> (reply_code (fst (handleEmailWebhook e now str n body s)) = 400
              \<longrightarrow> extra = [])"
    by (intro exI [where x = ?extra] conjI logs
          facts [THEN conjunct1] facts [THEN conjunct2, THEN conjunct1]
          facts [THEN conjunct2, THEN conjunct2])
next
  assume a: "webhook_log_row e now ''email'' ''email_received'' (str body) ''pending'' None
               = None"
  show "webhook_logs (snd (handleEmailWebhook e now str n body s)) = webhook_logs s"
    unfolding email_webhook_logs [of e now str n body s]
    by (simp add: a webhook_log_row_refused [OF a] split: reply.split option.split)
qed

lemma whatsapp_webhook_rows:
  "fst (handleWhatsAppWebhook e now str body s) = Reply 200 None \<and>
   webhook_logs (snd (handleWhatsAppWebhook e now str body s))
     = webhook_logs s @
       (case webhook_log_row e now ''whatsapp'' ''message_received'' (str body) ''pending''
               None
        of None \<Rightarrow> [] | Some row \<Rightarrow> [row])"
  by (simp add: handleWhatsAppWebhook_def WhatsAppService_handleWebhook_webhook_logs
      logWebhook_rows)

text \<open>
  C2, amended. The first thing every webhook handler (transaction, CRM, email, WhatsApp)
  does, before any validation, is to insert one log row with status \<open>pending\<close> that
  holds the payload. Whenever the store accepts that row, the log after the call is the
  log before it, unchanged, then the pending row, still pending, then what the handler
  appended after handling. The transaction handler appends one row \<open>processed\<close> when it
  answers 200, one row \<open>failed\<close> when it answers 500 and none when it rejects the call
  (400, 401); the CRM handler one row \<open>processed\<close> when it answers 200 and none when it
  rejects the signature; the email handler one row \<open>processed\<close> when it answers with
  the ticket it created, one row \<open>failed\<close> when it answers 500 and none when it rejects
  the payload.
\<close>

theorem webhook_calls_append_log_rows:
  "(webhook_log_row e now ''transaction'' ''status_update'' (strT bodyT) ''pending'' None
      = Some rowT \<longrightarrow>
      wh_status rowT = ''pending'' \<and> wh_payload rowT = strT bodyT \<and>
      (\<exists>extra. webhook_logs (snd (handleTransactionWebhook e now strT sg bodyT s))
                 = webhook_logs s @ rowT # extra
         \<and> map wh_status extra
            = (if reply_code (fst (handleTransactionWebhook e now strT sg bodyT s)) = 200
               then [''processed'']
               else if reply_code (fst (handleTransactionWebhook e now strT sg bodyT s)) = 500
               then [''failed''] else [])))
   \<and> (webhook_log_row e now ''crm'' (or_default (ce_event_type bodyC) ''unknown'')
         (strC bodyC) ''pending'' None = Some rowC \<longrightarrow>
      wh_status rowC = ''pending'' \<and> wh_payload rowC = strC bodyC \<and>
      (\<exists>extra. webhook_logs (snd (handleCRMWebhook e now strC sg bodyC s))
                 = webhook_logs s @ rowC # extra
         \<and> map wh_status extra
            = (if reply_code (fst (handleCRMWebhook e now strC sg bodyC s)) = 200
               then [''processed''] else [])))
   \<and> (webhook_log_row e now ''email'' ''email_received'' (strE bodyE) ''pending'' None
      = Some rowE \<longrightarrow>
      wh_status rowE = ''pending'' \<and> wh_payload rowE = strE bodyE \<and>
      (\<exists>extra. webhook_logs (snd (handleEmailWebhook e now strE n bodyE s))
                 = webhook_logs s @ rowE # extra
         \<and> (fst (handleEmailWebhook e now strE n bodyE s) = Reply 200 (Some t)
              \<longrightarrow> map wh_status extra = [''processed''])
         \<and> (reply_code (fst (handleEmailWebhook e now strE n bodyE s)) = 500
              \<longrightarrow> map wh_status extra = [''failed''])
         \<and> (reply_code (fst (handleEmailWebhook e now strE n bodyE s)) = 400
              \<longrightarrow> extra = [])))
   \<and> (webhook_log_row e now ''whatsapp'' ''message_received'' (strW bodyW) ''pending'' None
        = Some rowW \<longrightarrow>
      wh_status rowW = ''pending'' \<and> wh_payload rowW = strW bodyW \<and>
      (\<exists>extra. webhook_logs (snd (handleWhatsAppWebhook e now strW bodyW s))
                 = webhook_logs s @ rowW # extra))"
proof -
  have tr: "webhook_log_row e now ''transaction'' ''status_update'' (strT bodyT) ''pending''
      None = Some rowT \<longrightarrow>
      wh_status rowT = ''pending'' \<and> wh_payload rowT = strT bodyT \<and>
      (\<exists>extra. webhook_logs (snd (handleTransactionWebhook e now strT sg bodyT s))
                 = webhook_logs s @ rowT # extra
         \<and> map wh_status extra
            = (if reply_code (fst (handleTransactionWebhook e now strT sg bodyT s)) = 200
               then [''processed'']
               else if reply_code (fst (handleTransactionWebhook e now strT sg bodyT s)) = 500
               then [''failed''] else []))"
    using transaction_webhook_rows [of e now strT bodyT rowT sg s]
      webhook_log_row_fields [of e now "''transaction''" "''status_update''" "strT bodyT"
        "''pending''" None rowT]
    by simp
  have crm: "webhook_log_row e now ''crm'' (or_default (ce_event_type bodyC) ''unknown'')
         (strC bodyC) ''pending'' None = Some rowC \<longrightarrow>
      wh_status rowC = ''pending'' \<and> wh_payload rowC = strC bodyC \<and>
      (\<exists>extra. webhook_logs (snd (handleCRMWebhook e now strC sg bodyC s))
                 = webhook_logs s @ rowC # extra
         \<and> map wh_status extra
            = (if reply_code (fst (handleCRMWebhook e now strC sg bodyC s)) = 200
               then [''processed''] else []))"
    using crm_webhook_rows [of e now bodyC strC rowC sg s]
      webhook_log_row_fields [of e now "''crm''" "or_default (ce_event_type bodyC) ''unknown''"
        "strC bodyC" "''pending''" None rowC]
    by simp
  have em: "webhook_log_row e now ''email'' ''email_received'' (strE bodyE) ''pending'' None
      = Some rowE \<longrightarrow>
      wh_status rowE = ''pending'' \<and> wh_payload rowE = strE bodyE \<and>
      (\<exists>extra. webhook_logs (snd (handleEmailWebhook e now strE n bodyE s))
                 = webhook_logs s @ rowE # extra
         \<and> (fst (handleEmailWebhook e now strE n bodyE s) = Reply 200 (Some t)
              \<longrightarrow> map wh_status extra = [''processed''])
         \<and> (reply_code (fst (handleEmailWebhook e now strE n bodyE s)) = 500
              \<longrightarrow> map wh_status extra = [''failed''])
         \<and> (reply_code (fst (handleEmailWebhook e now strE n bodyE s)) = 400
              \<longrightarrow> extra = []))"
    using email_webhook_rows [of e now strE bodyE rowE n s t]
      webhook_log_row_fields [of e now "''email''" "''email_received''" "strE bodyE"
        "''pending''" None rowE]
    by simp
  have wa: "webhook_log_row e now ''whatsapp'' ''message_received'' (strW bodyW) ''pending''
        None = Some rowW \<longrightarrow>
      wh_status rowW = ''pending'' \<and> wh_payload rowW = strW bodyW \<and>
      (\<exists>extra. webhook_logs (snd (handleWhatsAppWebhook e now strW bodyW s))
                 = webhook_logs s @ rowW # extra)"
    using whatsapp_webhook_rows [of e now strW bodyW s]
      webhook_log_row_fields [of e now "''whatsapp''" "''message_received''" "strW bodyW"
        "''pending''" None rowW]
    by simp
  show ?thesis by (intro conjI tr crm em wa)
qed

lemma example_webhook_reply:
  "fst (handleTransactionWebhook example_env 9 example_stringify (Some ''sha256=sT1:pending'')
        example_event example_store) = Reply 200 (Some example_transaction)"
  by (simp add: handleTransactionWebhook_def logWebhook_tables
      example_env_def example_stringify_def example_event_def verifySignature_def
      timingSafeEqual_def truthy_def or_default_def example_store_def example_transaction_def
      example_response_def SyncStatus_result Let_def)

lemma example_pending_row:
  "webhook_log_row example_env 9 ''transaction'' ''status_update''
     (example_stringify example_event) ''pending'' None
   = Some \<lparr>wh_source = ''transaction'', wh_event_type = ''status_update'',
           wh_payload = ''T1:pending'', wh_status = ''pending'', wh_processed_at = None,
           wh_error_message = None, wh_created_at = 9\<rparr>"
  by (simp add: webhook_log_row_def varchar_def example_env_def webhook_log_statuses_def
      example_stringify_def example_event_def or_default_def or_null_def truthy_def)

theorem webhook_calls_append_log_rows_witness:
  "\<exists>extra. webhook_logs (snd (handleTransactionWebhook example_env 9 example_stringify
              (Some ''sha256=sT1:pending'') example_event example_store))
            = webhook_logs example_store @
              \<lparr>wh_source = ''transaction'', wh_event_type = ''status_update'',
               wh_payload = ''T1:pending'', wh_status = ''pending'', wh_processed_at = None,
               wh_error_message = None, wh_created_at = 9\<rparr> # extra
        \<and> map wh_status extra = [''processed'']"
proof -
  note inst = webhook_calls_append_log_rows
    [where e = example_env and now = 9 and strT = example_stringify
       and sg = "Some ''sha256=sT1:pending''" and bodyT = example_event and s = example_store
       and rowT = "\<lparr>wh_source = ''transaction'', wh_event_type = ''status_update'',
               wh_payload = ''T1:pending'', wh_status = ''pending'', wh_processed_at = None,
               wh_error_message = None, wh_created_at = 9\<rparr>"]
  have str: "example_stringify example_event = ''T1:pending''"
    by (simp add: example_stringify_def example_event_def or_default_def)
  show ?thesis
    using inst [THEN conjunct1, THEN mp, OF example_pending_row]
    by (simp add: example_webhook_reply str)
qed

text \<open>
  When the store refuses the pending row, the refusal is swallowed and the call is
  handled all the same; the transaction, CRM and email handlers then leave the log as
  it was (lemmas \<open>transaction_webhook_rows\<close>, \<open>crm_webhook_rows\<close>,
  \<open>email_webhook_rows\<close>). A CRM event whose \<open>event_type\<close> has 101 characters is
  answered 200 and leaves no row.
\<close>

lemma refused_log_row_example:
  "handleCRMWebhook example_env 9 (\<lambda>body. ''{}'') None long_crm_event example_store
     = (Reply 200 None, example_store)"
  by (simp add: handleCRMWebhook_def logWebhook_def webhook_log_row_def varchar_def
      long_crm_event_def or_default_def example_env_def truthy_def Let_def)

text \<open>
  The signature check of the transaction webhook. \<open>verifySignature\<close> is true exactly
  when the header is \<open>sha256=\<close> followed by the hex HMAC of the text it is given.
\<close>

lemma verifySignature_iff:
  "verifySignature hmac payload sg secret = (sg = Some (''sha256='' @ hmac secret payload))"
  by (cases sg) (auto simp: verifySignature_def timingSafeEqual_def Let_def)

lemma handleTransactionWebhook_without_secret:
  "handleTransactionWebhook (e\<lparr>TRANSACTION_WEBHOOK_SECRET := None\<rparr>) now str sg body s
     = (let s1 = logWebhook e now ''transaction'' ''status_update'' (str body) ''pending'' None s
        in if \<not> truthy (te_transaction_id body) \<or> \<not> truthy (te_status body)
           then (Reply 400 None, s1)
           else
             (case TransactionService_updateTransactionStatus e now
                     (the (te_transaction_id body)) s1 of
                (Some updatedTransaction, s2) \<Rightarrow>
                  (Reply 200 (Some updatedTransaction),
                   logWebhook e now ''transaction'' ''status_update'' (str body)
                     ''processed'' None s2)
              | (None, s2) \<Rightarrow>
                  (Reply 500 None,
                   logWebhook e now ''transaction'' ''status_update'' (str body) ''failed''
                     (Some ''Failed to update transaction'') s2)))"
proof -
  have same: "TransactionService_updateTransactionStatus (e\<lparr>TRANSACTION_WEBHOOK_SECRET := None\<rparr>)
        = TransactionService_updateTransactionStatus e"
    by (intro ext) (simp add: SyncStatus_result)
  have row: "webhook_log_row (e\<lparr>TRANSACTION_WEBHOOK_SECRET := None\<rparr>) = webhook_log_row e"
    by (intro ext) (simp add: webhook_log_row_def split: option.split)
  have log: "logWebhook (e\<lparr>TRANSACTION_WEBHOOK_SECRET := None\<rparr>) = logWebhook e"
    by (intro ext) (simp add: logWebhook_def row)
  show ?thesis
    by (simp add: handleTransactionWebhook_def Let_def truthy_def same log
        sendTransactionNotifications_caught split: prod.split option.split)
qed

lemma handleTransactionWebhook_gate:
  assumes "TRANSACTION_WEBHOOK_SECRET e = Some secret" and "secret \<noteq> []"
  shows "handleTransactionWebhook e now str sg body s
      = (if sg = Some (''sha256='' @ hmac_sha256_hex e secret (str body))
         then handleTransactionWebhook (e\<lparr>TRANSACTION_WEBHOOK_SECRET := None\<rparr>) now str sg
                body s
         else (Reply 401 None,
               logWebhook e now ''transaction'' ''status_update'' (str body) ''pending''
                 None s))"
  unfolding handleTransactionWebhook_without_secret using assms
  by (simp add: handleTransactionWebhook_def Let_def truthy_def verifySignature_iff
      sendTransactionNotifications_caught split: prod.split option.split)

text \<open>
  The handler computes the HMAC over the text that \<open>JSON.stringify\<close> renders for the
  parsed body, not over the text received. For a request whose text is not the one
  \<open>JSON.stringify\<close> renders for its parse, the signature of the text received is
  refused whenever the two texts have different HMACs.
\<close>

lemma signature_of_received_text_refused:
  assumes "TRANSACTION_WEBHOOK_SECRET e = Some secret" and "secret \<noteq> []"
    and "parse raw = Some body"
    and "hmac_sha256_hex e secret (str body) \<noteq> hmac_sha256_hex e secret raw"
  shows "transaction_webhook_request e now parse str
           (Some (''sha256='' @ hmac_sha256_hex e secret raw)) raw s
         = (Reply 401 None,
            logWebhook e now ''transaction'' ''status_update'' (str body) ''pending'' None s)"
  using assms
  by (simp add: transaction_webhook_request_def handleTransactionWebhook_gate [OF assms(1,2)])

lemma signature_of_received_text_refused_example:
  "fst (transaction_webhook_request example_env 9 example_parse example_stringify
          (Some (''sha256='' @ hmac_sha256_hex example_env ''s'' ''T1 : pending''))
          ''T1 : pending'' example_store) = Reply 401 None"
proof -
  have 1: "TRANSACTION_WEBHOOK_SECRET example_env = Some ''s''" by (simp add: example_env_def)
  have 2: "''s'' \<noteq> []" by simp
  have 3: "example_parse ''T1 : pending'' = Some example_event"
    by (simp add: example_parse_def)
  have 4: "hmac_sha256_hex example_env ''s'' (example_stringify example_event)
             \<noteq> hmac_sha256_hex example_env ''s'' ''T1 : pending''"
    by (simp add: example_env_def example_stringify_def example_event_def or_default_def)
  show ?thesis
    using signature_of_received_text_refused
          [where parse = example_parse and str = example_stringify
             and raw = "''T1 : pending''" and body = example_event, OF 1 2 3 4,
           of 9 example_store]
    by simp
qed

text \<open>
  C7 as stated fails: a correct signature lets a request past the signature check, it
  does not make it processed. A request whose body has neither \<open>transaction_id\<close> nor
  \<open>status\<close>, signed correctly over the text received, is answered 400 with only the
  pending log row written.
\<close>

theorem signed_webhook_is_not_always_processed:
  "example_parse '':'' = Some other_event
   \<and> example_stringify other_event = '':''
   \<and> transaction_webhook_request example_env 9 example_parse example_stringify
       (Some (''sha256='' @ hmac_sha256_hex example_env ''s'' '':'')) '':'' example_store
     = (Reply 400 None,
        logWebhook example_env 9 ''transaction'' ''status_update'' '':'' ''pending'' None
          example_store)"
  by (simp add: transaction_webhook_request_def example_parse_def
      handleTransactionWebhook_def example_env_def example_stringify_def
      other_event_def verifySignature_def timingSafeEqual_def truthy_def or_default_def
      Let_def)

text \<open>
  C7, amended. Transaction webhook with a shared secret configured, for a request whose
  text is the one \<open>JSON.stringify\<close> renders for its parse. If the \<open>x-signature\<close> header
  is \<open>sha256=\<close> followed by the hex HMAC-SHA256 of the text received under the secret,
  the request passes the signature check and is handled exactly as the same request is
  with no secret configured: it is answered 400, with only the pending log row
  written, if \<open>transaction_id\<close> or \<open>status\<close> is missing, 200 with the transaction when
  SyncStatus returns one, and 500 when SyncStatus returns none. With any other header,
  a missing one and one that differs in a byte or in length included, the request is
  answered 401 after the pending log row alone was written: transactions, audit log
  and notification logs are as before.
\<close>

theorem transaction_webhook_signature_gate:
  assumes "TRANSACTION_WEBHOOK_SECRET e = Some secret" and "secret \<noteq> []"
    and "parse raw = Some body" and "str body = raw"
  shows "(sg = Some (''sha256='' @ hmac_sha256_hex e secret raw) \<longrightarrow>
            transaction_webhook_request e now parse str sg raw s
              = transaction_webhook_request (e\<lparr>TRANSACTION_WEBHOOK_SECRET := None\<rparr>) now
                  parse str sg raw s
          \<and> (\<not> (truthy (te_transaction_id body) \<and> truthy (te_status body)) \<longrightarrow>
               transaction_webhook_request e now parse str sg raw s
                 = (Reply 400 None,
                    logWebhook e now ''transaction'' ''status_update'' raw ''pending'' None s))
          \<and> (truthy (te_transaction_id body) \<and> truthy (te_status body) \<longrightarrow>
               fst (transaction_webhook_request e now parse str sg raw s)
                 = (case fst (TransactionService_updateTransactionStatus e now
                                (the (te_transaction_id body))
                                (logWebhook e now ''transaction'' ''status_update'' raw
                                   ''pending'' None s)) of
                      Some t \<Rightarrow> Reply 200 (Some t)
                    | None \<Rightarrow> Reply 500 None)))
       \<and> (sg \<noteq> Some (''sha256='' @ hmac_sha256_hex e secret raw) \<longrightarrow>
            transaction_webhook_request e now parse str sg raw s
              = (Reply 401 None,
                 logWebhook e now ''transaction'' ''status_update'' raw ''pending'' None s)
          \<and> transactions (snd (transaction_webhook_request e now parse str sg raw s))
              = transactions s
          \<and> status_updates (snd (transaction_webhook_request e now parse str sg raw s))
              = status_updates s
          \<and> email_logs (snd (transaction_webhook_request e now parse str sg raw s))
              = email_logs s
          \<and> whatsapp_logs (snd (transaction_webhook_request e now parse str sg raw s))
              = whatsapp_logs s)"
proof -
  have par: "parse raw = Some body" by (rule assms(3))
  have req: "\<And>e'. transaction_webhook_request e' now parse str sg raw s
               = handleTransactionWebhook e' now str sg body s"
    by (simp add: transaction_webhook_request_def par)
  note gate = handleTransactionWebhook_gate [OF assms(1,2), of now str sg body s]
  note opened = handleTransactionWebhook_without_secret [of e now str sg body s]
  show ?thesis
  proof (cases "sg = Some (''sha256='' @ hmac_sha256_hex e secret raw)")
    case False
    then have "sg \<noteq> Some (''sha256='' @ hmac_sha256_hex e secret (str body))"
      using assms(4) by simp
    then have "handleTransactionWebhook e now str sg body s
        = (Reply 401 None,
           logWebhook e now ''transaction'' ''status_update'' raw ''pending'' None s)"
      using gate assms(4) by simp
    then show ?thesis using False by (simp add: req logWebhook_tables)
  next
    case True
    then have "sg = Some (''sha256='' @ hmac_sha256_hex e secret (str body))"
      using assms(4) by simp
    then have eq: "handleTransactionWebhook e now str sg body s
        = handleTransactionWebhook (e\<lparr>TRANSACTION_WEBHOOK_SECRET := None\<rparr>) now str sg body s"
      using gate by simp
    have a: "transaction_webhook_request e now parse str sg raw s
              = transaction_webhook_request (e\<lparr>TRANSACTION_WEBHOOK_SECRET := None\<rparr>) now
                  parse str sg raw s"
      by (simp add: req eq)
    have b: "\<not> (truthy (te_transaction_id body) \<and> truthy (te_status body)) \<longrightarrow>
               transaction_webhook_request e now parse str sg raw s
                 = (Reply 400 None,
                    logWebhook e now ''transaction'' ''status_update'' raw ''pending'' None s)"
      unfolding req eq opened using assms(4) by (auto simp add: Let_def)
    have c: "truthy (te_transaction_id body) \<and> truthy (te_status body) \<longrightarrow>
               fst (transaction_webhook_request e now parse str sg raw s)
                 = (case fst (TransactionService_updateTransactionStatus e now
                                (the (te_transaction_id body))
                                (logWebhook e now ''transaction'' ''status_update'' raw
                                   ''pending'' None s)) of
                      Some t \<Rightarrow> Reply 200 (Some t)
                    | None \<Rightarrow> Reply 500 None)"
      unfolding req eq opened using assms(4)
      by (auto simp add: Let_def split: prod.split option.split)
    show ?thesis using True a b c by blast
  qed
qed

theorem transaction_webhook_signature_gate_witness:
  "fst (transaction_webhook_request example_env 9 example_parse example_stringify
          (Some ''sha256=sT1:pending'') ''T1:pending'' example_store)
     = Reply 200 (Some example_transaction)
   \<and> fst (transaction_webhook_request example_env 9 example_parse example_stringify
          (Some ''sha256=sT9:pending'') ''T9:pending'' example_store)
     = Reply 500 None
   \<and> transaction_webhook_request example_env 9 example_parse example_stringify
          (Some ''sha256=s:'') '':'' example_store
      = (Reply 400 None,
         logWebhook example_env 9 ''transaction'' ''status_update'' '':'' ''pending'' None
           example_store)
   \<and> transaction_webhook_request example_env 9 example_parse example_stringify
          (Some ''sha256=sT1:pendinf'') ''T1:pending'' example_store
      = (Reply 401 None,
         logWebhook example_env 9 ''transaction'' ''status_update'' ''T1:pending'' ''pending''
           None example_store)"
proof -
  have 1: "TRANSACTION_WEBHOOK_SECRET example_env = Some ''s''" by (simp add: example_env_def)
  have 2: "''s'' \<noteq> []" by simp
  have p1: "example_parse ''T1:pending'' = Some example_event"
    and p9: "example_parse ''T9:pending'' = Some unknown_event"
    and p0: "example_parse '':'' = Some other_event"
    by (simp_all add: example_parse_def)
  have s1: "example_stringify example_event = ''T1:pending''"
    and s9: "example_stringify unknown_event = ''T9:pending''"
    and s0: "example_stringify other_event = '':''"
    by (simp_all add: example_stringify_def example_event_def unknown_event_def
        other_event_def or_default_def)
  have h: "\<And>raw. hmac_sha256_hex example_env ''s'' raw = ''s'' @ raw"
    by (simp add: example_env_def)
  have t1: "truthy (te_transaction_id example_event) \<and> truthy (te_status example_event)"
    and t9: "truthy (te_transaction_id unknown_event) \<and> truthy (te_status unknown_event)"
    and t0: "\<not> (truthy (te_transaction_id other_event) \<and> truthy (te_status other_event))"
    by (simp_all add: example_event_def unknown_event_def other_event_def truthy_def)
  have y1: "fst (TransactionService_updateTransactionStatus example_env 9
                   (the (te_transaction_id example_event))
                   (logWebhook example_env 9 ''transaction'' ''status_update'' ''T1:pending''
                      ''pending'' None example_store)) = Some example_transaction"
    by (simp add: SyncStatus_result logWebhook_tables example_event_def example_env_def
        example_store_def example_transaction_def example_response_def)
  have y9: "fst (TransactionService_updateTransactionStatus example_env 9
                   (the (te_transaction_id unknown_event))
                   (logWebhook example_env 9 ''transaction'' ''status_update'' ''T9:pending''
                      ''pending'' None example_store)) = None"
    by (simp add: SyncStatus_result unknown_event_def example_env_def)
  note g1 = transaction_webhook_signature_gate
              [where parse = example_parse and str = example_stringify
                 and raw = "''T1:pending''" and body = example_event and now = 9
                 and s = example_store, OF 1 2 p1 s1]
  note g9 = transaction_webhook_signature_gate
              [where parse = example_parse and str = example_stringify
                 and raw = "''T9:pending''" and body = unknown_event and now = 9
                 and s = example_store and sg = "Some ''sha256=sT9:pending''", OF 1 2 p9 s9]
  note g0 = transaction_webhook_signature_gate
              [where parse = example_parse and str = example_stringify
                 and raw = "'':''" and body = other_event and now = 9
                 and s = example_store and sg = "Some ''sha256=s:''", OF 1 2 p0 s0]
  have ok1: "Some ''sha256=sT1:pending''
               = Some (''sha256='' @ hmac_sha256_hex example_env ''s'' ''T1:pending'')"
    and ok9: "Some ''sha256=sT9:pending''
               = Some (''sha256='' @ hmac_sha256_hex example_env ''s'' ''T9:pending'')"
    and ok0: "Some ''sha256=s:'' = Some (''sha256='' @ hmac_sha256_hex example_env ''s'' '':'')"
    and bad: "Some ''sha256=sT1:pendinf''
               \<noteq> Some (''sha256='' @ hmac_sha256_hex example_env ''s'' ''T1:pending'')"
    by (simp_all add: h)
  have r1: "fst (transaction_webhook_request example_env 9 example_parse example_stringify
          (Some ''sha256=sT1:pending'') ''T1:pending'' example_store)
     = Reply 200 (Some example_transaction)"
    using g1 [where sg = "Some ''sha256=sT1:pending''", THEN conjunct1, THEN mp, OF ok1,
              THEN conjunct2, THEN conjunct2, THEN mp, OF t1]
    by (simp add: y1)
  have r9: "fst (transaction_webhook_request example_env 9 example_parse example_stringify
          (Some ''sha256=sT9:pending'') ''T9:pending'' example_store)
     = Reply 500 None"
    using g9 [THEN conjunct1, THEN mp, OF ok9, THEN conjunct2, THEN conjunct2, THEN mp, OF t9]
    by (simp add: y9)
  have r0: "transaction_webhook_request example_env 9 example_parse example_stringify
          (Some ''sha256=s:'') '':'' example_store
      = (Reply 400 None,
         logWebhook example_env 9 ''transaction'' ''status_update'' '':'' ''pending'' None
           example_store)"
    using g0 [THEN conjunct1, THEN mp, OF ok0, THEN conjunct2, THEN conjunct1, THEN mp, OF t0]
    by simp
  have r401: "transaction_webhook_request example_env 9 example_parse example_stringify
          (Some ''sha256=sT1:pendinf'') ''T1:pending'' example_store
      = (Reply 401 None,
         logWebhook example_env 9 ''transaction'' ''status_update'' ''T1:pending'' ''pending''
           None example_store)"
    using g1 [where sg = "Some ''sha256=sT1:pendinf''", THEN conjunct2, THEN mp, OF bad,
              THEN conjunct1]
    by simp
  show ?thesis by (intro conjI r1 r9 r0 r401)
qed

end
